theory Spec2Isabelle
  imports Main "HOL-Library.Multiset"
begin

unbundle bit_operations_syntax

section \<open>Strings\<close>

text \<open>
  A JavaScript string is modelled as a \<^typ>\<open>string\<close>: one \<^typ>\<open>char\<close> per code unit, which
  covers the text with code units below 256. The helpers below are the string methods
  of the host that the source files call.
\<close>

definition padStart :: "nat \<Rightarrow> char \<Rightarrow> string \<Rightarrow> string" where
  "padStart n c s = replicate (n - length s) c @ s"

definition padEnd :: "nat \<Rightarrow> char \<Rightarrow> string \<Rightarrow> string" where
  "padEnd n c s = s @ replicate (n - length s) c"

definition repeat :: "char \<Rightarrow> nat \<Rightarrow> string" where
  "repeat c n = replicate n c"

text \<open>\<^verbatim>\<open>s.substring(a, b)\<close>: both indices are clamped to the string, and swapped when
  the first is the larger one.\<close>

definition substring :: "string \<Rightarrow> int \<Rightarrow> int \<Rightarrow> string" where
  "substring s a b =
     (let n = int (length s);
          a' = min (max a 0) n;
          b' = min (max b 0) n;
          lo = min a' b';
          hi = max a' b'
      in take (nat (hi - lo)) (drop (nat lo) s))"

definition code :: "char \<Rightarrow> nat" where
  "code c = of_char c"

text \<open>The relational comparison of two strings: code unit by code unit.\<close>

fun str_lt :: "string \<Rightarrow> string \<Rightarrow> bool" where
  "str_lt [] [] = False"
| "str_lt [] (y # ys) = True"
| "str_lt (x # xs) [] = False"
| "str_lt (x # xs) (y # ys) =
     (if code x < code y then True
      else if code y < code x then False
      else str_lt xs ys)"

section \<open>The version hash (common.js, version2hash)\<close>

definition groups :: nat where "groups = 6"
definition padNum :: nat where "padNum = 6"
definition padAlph :: nat where "padAlph = 2"
definition padChrLo :: char where "padChrLo = CHR '' ''"
definition padChrHi :: char where "padChrHi = CHR ''~''"
definition hl :: nat where "hl = groups * padNum"
definition hlExt :: nat where "hlExt = hl + padAlph"
definition hlFull :: nat where "hlFull = hlExt + padNum"

text \<open>One round of the \<^verbatim>\<open>for (char of String(ver))\<close> loop; the state is the pair
  \<open>(hash, group)\<close>.\<close>

definition hashChar :: "string \<times> string \<Rightarrow> char \<Rightarrow> string \<times> string" where
  "hashChar st c =
     (let hash = fst st; group = snd st in
      if length hash < hl then
        (if c = CHR ''.'' then
           (hash @ padStart padNum padChrLo (substring group 0 (int padNum)), [])
         else if c = CHR ''-'' then
           (let hash1 = hash @ padStart padNum padChrLo (substring group 0 (int padNum));
                hash2 = (if length hash1 < hl then padEnd hl padChrLo hash1 else hash1)
            in (hash2, []))
         else (hash, group @ [c]))
      else if length hash < hlExt then
        (if code c < code (CHR ''0'') \<or> code c > code (CHR ''9'') then (hash, group @ [c])
         else (hash @ padEnd padAlph padChrHi (substring group 0 (int padAlph)), [c]))
      else (hash, group @ [c]))"

text \<open>The two blocks after the loop.\<close>

definition hashFinish :: "string \<times> string \<Rightarrow> string" where
  "hashFinish st =
     (let hash = fst st; group = snd st;
          hash1 = (if length hash < hl then
                     (let h = hash @ padStart padNum padChrLo (substring group 0 (int padNum))
                      in if length h < hl
                         then padEnd hl padChrLo h @ repeat padChrHi padAlph @ repeat padChrLo padNum
                         else h)
                   else hash)
      in if length hash1 < hlFull
         then hash1 @ padStart padNum padChrLo (substring group 0 (int padNum))
         else hash1)"

text \<open>\<^verbatim>\<open>version2hash(ver)\<close> for a string argument: the empty string is the only falsy
  string, and gets the empty hash at once.\<close>

definition version2hash :: "string \<Rightarrow> string" where
  "version2hash ver =
     (if ver = [] then repeat padChrLo hl @ repeat padChrHi padAlph @ repeat padChrLo padNum
      else hashFinish (foldl hashChar ([], []) ver))"

section \<open>JavaScript values\<close>

text \<open>
  Numbers are the integers together with \<open>NaN\<close> and the two infinities; fractional
  numbers and the rounding of doubles are outside this model.
\<close>

datatype jsnum = NaN | NegInf | Fin int | PosInf

datatype jsval =
    JUndefined
  | JNull
  | JBool bool
  | JNum jsnum
  | JStr string
  | JDate jsnum
  | JRegExp string
  | JArr "jsval list"
  | JObject

text \<open>
  \<open>JDate t\<close> is a Date object with time value \<open>t\<close>, \<open>JRegExp p\<close> the object
  \<^verbatim>\<open>new RegExp(p, "i")\<close>, and \<open>JObject\<close> a plain object. Objects of other classes
  (functions, boxed primitives) are outside this model.
\<close>

text \<open>\<^verbatim>\<open>$typeOf\<close> of common.js.\<close>

fun typeOf :: "jsval \<Rightarrow> string" where
  "typeOf JUndefined = ''Undefined''"
| "typeOf JNull = ''Null''"
| "typeOf (JBool b) = ''Boolean''"
| "typeOf (JNum n) = ''Number''"
| "typeOf (JStr s) = ''String''"
| "typeOf (JDate t) = ''Date''"
| "typeOf (JRegExp p) = ''RegExp''"
| "typeOf (JArr vs) = ''Array''"
| "typeOf JObject = ''Object''"

fun num_lt :: "jsnum \<Rightarrow> jsnum \<Rightarrow> bool" where
  "num_lt NaN y = False"
| "num_lt x NaN = False"
| "num_lt NegInf NegInf = False"
| "num_lt NegInf y = True"
| "num_lt x NegInf = False"
| "num_lt PosInf y = False"
| "num_lt x PosInf = True"
| "num_lt (Fin a) (Fin b) = (a < b)"

fun num_add :: "jsnum \<Rightarrow> jsnum \<Rightarrow> jsnum" where
  "num_add NaN y = NaN"
| "num_add x NaN = NaN"
| "num_add PosInf NegInf = NaN"
| "num_add NegInf PosInf = NaN"
| "num_add PosInf y = PosInf"
| "num_add NegInf y = NegInf"
| "num_add x PosInf = PosInf"
| "num_add x NegInf = NegInf"
| "num_add (Fin a) (Fin b) = Fin (a + b)"

fun num_neg :: "jsnum \<Rightarrow> jsnum" where
  "num_neg NaN = NaN"
| "num_neg NegInf = PosInf"
| "num_neg PosInf = NegInf"
| "num_neg (Fin a) = Fin (- a)"

fun num_mul :: "jsnum \<Rightarrow> jsnum \<Rightarrow> jsnum" where
  "num_mul NaN y = NaN"
| "num_mul x NaN = NaN"
| "num_mul (Fin a) (Fin b) = Fin (a * b)"
| "num_mul (Fin a) y = (if a = 0 then NaN else if 0 < a then y else num_neg y)"
| "num_mul x (Fin b) = (if b = 0 then NaN else if 0 < b then x else num_neg x)"
| "num_mul PosInf y = y"
| "num_mul NegInf y = num_neg y"

definition num_truthy :: "jsnum \<Rightarrow> bool" where
  "num_truthy n = (n \<noteq> NaN \<and> n \<noteq> Fin 0)"

text \<open>\<^verbatim>\<open>ToInt32\<close> and \<^verbatim>\<open>ToUint32\<close>, as the bitwise operators apply them.\<close>

fun toUint32 :: "jsnum \<Rightarrow> int" where
  "toUint32 (Fin a) = a mod 4294967296"
| "toUint32 n = 0"

definition toInt32 :: "jsnum \<Rightarrow> int" where
  "toInt32 n = (let u = toUint32 n in if u \<ge> 2147483648 then u - 4294967296 else u)"

text \<open>\<^verbatim>\<open>Number.prototype.toString\<close> on the modelled numbers.\<close>

fun decimal :: "nat \<Rightarrow> string" where
  "decimal n = (if n < 10 then [char_of (48 + n)] else decimal (n div 10) @ [char_of (48 + n mod 10)])"

declare decimal.simps [simp del]

fun num_toString :: "jsnum \<Rightarrow> string" where
  "num_toString NaN = ''NaN''"
| "num_toString PosInf = ''Infinity''"
| "num_toString NegInf = ''-Infinity''"
| "num_toString (Fin a) = (if a < 0 then CHR ''-'' # decimal (nat (- a)) else decimal (nat a))"

subsection \<open>Characters and the string methods used by the sources\<close>

definition isSpace :: "char \<Rightarrow> bool" where
  "isSpace c = (code c \<in> {9, 10, 11, 12, 13, 32, 160})"

definition isDigit :: "char \<Rightarrow> bool" where
  "isDigit c = (48 \<le> code c \<and> code c \<le> 57)"

definition isWordChar :: "char \<Rightarrow> bool" where
  "isWordChar c = (isDigit c \<or> (65 \<le> code c \<and> code c \<le> 90)
                   \<or> (97 \<le> code c \<and> code c \<le> 122) \<or> c = CHR ''_'')"

definition upperChar :: "char \<Rightarrow> char" where
  "upperChar c = (if 97 \<le> code c \<and> code c \<le> 122 then char_of (code c - 32) else c)"

text \<open>\<^verbatim>\<open>toUpperCase\<close>, on ASCII letters.\<close>

definition toUpperCase :: "string \<Rightarrow> string" where
  "toUpperCase s = map upperChar s"

definition trim :: "string \<Rightarrow> string" where
  "trim s = rev (dropWhile isSpace (rev (dropWhile isSpace s)))"

text \<open>\<^verbatim>\<open>s.split(".")\<close>: the pieces between the dots; the empty string gives one empty
  piece.\<close>

fun split_dot :: "string \<Rightarrow> string list" where
  "split_dot [] = [[]]"
| "split_dot (c # cs) =
     (if c = CHR ''.'' then [] # split_dot cs
      else (case split_dot cs of [] \<Rightarrow> [[c]] | p # ps \<Rightarrow> (c # p) # ps))"

text \<open>\<^verbatim>\<open>parseInt(s)\<close>: leading white space, a sign, an optional \<^verbatim>\<open>0x\<close> prefix, then the
  longest run of digits of the radix; \<open>NaN\<close> when there is none.\<close>

definition digitVal :: "char \<Rightarrow> nat" where
  "digitVal c =
     (if isDigit c then code c - 48
      else if 97 \<le> code c \<and> code c \<le> 102 then code c - 87
      else if 65 \<le> code c \<and> code c \<le> 70 then code c - 55
      else 16)"

definition digitsVal :: "nat \<Rightarrow> string \<Rightarrow> nat" where
  "digitsVal radix ds = foldl (\<lambda>acc c. acc * radix + digitVal c) 0 ds"

definition parseDigits :: "nat \<Rightarrow> string \<Rightarrow> jsnum" where
  "parseDigits radix s =
     (let ds = takeWhile (\<lambda>c. digitVal c < radix) s
      in if ds = [] then NaN else Fin (int (digitsVal radix ds)))"

definition parseUnsigned :: "string \<Rightarrow> jsnum" where
  "parseUnsigned s =
     (if take 2 s = ''0x'' \<or> take 2 s = ''0X'' then parseDigits 16 (drop 2 s)
      else parseDigits 10 s)"

definition parseInt :: "string \<Rightarrow> jsnum" where
  "parseInt s =
     (case dropWhile isSpace s of
        [] \<Rightarrow> NaN
      | c # cs \<Rightarrow>
          if c = CHR ''-'' then num_neg (parseUnsigned cs)
          else if c = CHR ''+'' then parseUnsigned cs
          else parseUnsigned (c # cs))"

section \<open>The host\<close>

text \<open>
  What the browser provides and the sources only call: the conversion of a string to a
  number (\<^verbatim>\<open>Number(s)\<close>, unary plus, \<^verbatim>\<open>isNaN(s)\<close>), the spare DOM element behind
  \<^verbatim>\<open>escapeHtml\<close> and \<^verbatim>\<open>html2text\<close>, regular expressions compiled from user input,
  dates, the optional moment.js library, and the string form of an object. The model
  takes them as a parameter.
\<close>

record host =
  toNumber :: "string \<Rightarrow> jsnum"
  textToHtml :: "string \<Rightarrow> string"
  htmlToText :: "string \<Rightarrow> string"
  regexpValid :: "string \<Rightarrow> bool"
  regexpTest :: "string \<Rightarrow> string \<Rightarrow> bool"
  dateParse :: "string \<Rightarrow> jsnum"
  toISOString :: "int \<Rightarrow> string"
  momentFormat :: "(jsnum \<Rightarrow> string \<Rightarrow> string) option"
  objectToString :: "jsval \<Rightarrow> string"

text \<open>\<^verbatim>\<open>String(v)\<close>, \<^verbatim>\<open>ToPrimitive\<close> with hint number, \<^verbatim>\<open>ToNumber\<close> and truthiness.\<close>

fun toStr :: "host \<Rightarrow> jsval \<Rightarrow> string" where
  "toStr h JUndefined = ''undefined''"
| "toStr h JNull = ''null''"
| "toStr h (JBool b) = (if b then ''true'' else ''false'')"
| "toStr h (JNum n) = num_toString n"
| "toStr h (JStr s) = s"
| "toStr h v = objectToString h v"

fun toPrimitive :: "host \<Rightarrow> jsval \<Rightarrow> jsval" where
  "toPrimitive h (JDate t) = JNum t"
| "toPrimitive h (JRegExp p) = JStr (objectToString h (JRegExp p))"
| "toPrimitive h (JArr vs) = JStr (objectToString h (JArr vs))"
| "toPrimitive h JObject = JStr (objectToString h JObject)"
| "toPrimitive h v = v"

fun primToNumber :: "host \<Rightarrow> jsval \<Rightarrow> jsnum" where
  "primToNumber h JUndefined = NaN"
| "primToNumber h JNull = Fin 0"
| "primToNumber h (JBool b) = (if b then Fin 1 else Fin 0)"
| "primToNumber h (JNum n) = n"
| "primToNumber h (JStr s) = toNumber h s"
| "primToNumber h v = NaN"

definition toNum :: "host \<Rightarrow> jsval \<Rightarrow> jsnum" where
  "toNum h v = primToNumber h (toPrimitive h v)"

definition isNaN :: "host \<Rightarrow> jsval \<Rightarrow> bool" where
  "isNaN h v = (toNum h v = NaN)"

fun truthy :: "jsval \<Rightarrow> bool" where
  "truthy JUndefined = False"
| "truthy JNull = False"
| "truthy (JBool b) = b"
| "truthy (JNum n) = num_truthy n"
| "truthy (JStr s) = (s \<noteq> [])"
| "truthy v = True"

text \<open>The relational comparison \<^verbatim>\<open>a < b\<close>.\<close>

definition js_lt :: "host \<Rightarrow> jsval \<Rightarrow> jsval \<Rightarrow> bool" where
  "js_lt h a b =
     (case (toPrimitive h a, toPrimitive h b) of
        (JStr s, JStr t) \<Rightarrow> str_lt s t
      | (pa, pb) \<Rightarrow> num_lt (primToNumber h pa) (primToNumber h pb))"

text \<open>Strict equality \<^verbatim>\<open>a === b\<close>. Two objects are equal only when they are the same
  object; the values compared in these sources (a field of a data cell against a token
  of the filter) are never the same object.\<close>

fun strictEq :: "jsval \<Rightarrow> jsval \<Rightarrow> bool" where
  "strictEq JUndefined JUndefined = True"
| "strictEq JNull JNull = True"
| "strictEq (JBool a) (JBool b) = (a = b)"
| "strictEq (JNum a) (JNum b) = (a \<noteq> NaN \<and> a = b)"
| "strictEq (JStr s) (JStr t) = (s = t)"
| "strictEq a b = False"

text \<open>\<^verbatim>\<open>ip2long\<close> of common.js.\<close>

definition ip2long :: "host \<Rightarrow> string \<Rightarrow> jsnum" where
  "ip2long h ip =
     (case split_dot ip of
        [o0, o1, o2, o3] \<Rightarrow>
          num_add (num_mul (num_add (num_mul (num_add (num_mul (toNumber h o0) (Fin 256))
            (toNumber h o1)) (Fin 256)) (toNumber h o2)) (Fin 256)) (toNumber h o3)
      | _ \<Rightarrow> Fin 0)"

section \<open>The table: columns, cells, rows, the display array\<close>

text \<open>
  A column of \<^verbatim>\<open>yaml.specs.table\<close>: \<open>type\<close>, \<open>colHtmlAlt\<close> and \<open>dateFormat\<close> are optional
  (\<open>None\<close>: the property is missing). \<open>options\<close> is \<^verbatim>\<open>yaml.specs.options\<close>.
\<close>

record column =
  key :: string
  type :: "string option"
  colHtmlAlt :: "jsval option"
  dateFormat :: "string option"

record options =
  optHtmlAlt :: "jsval option"
  optDateFormat :: "string option"

text \<open>
  A cell object. Every property is optional: \<open>None\<close> means that the object has no such
  own property, \<open>Some JUndefined\<close> that it has one, holding \<^verbatim>\<open>undefined\<close>. \<open>val\<close> is the
  property \<^verbatim>\<open>value\<close>, \<open>cmask\<close> the property \<^verbatim>\<open>mask\<close>, \<open>ctype\<close> the property \<^verbatim>\<open>type\<close>.
\<close>

record cell =
  val :: "jsval option"
  html :: "jsval option"
  match :: "jsval option"
  cmp :: "jsval option"
  cmpMin :: "jsval option"
  cmpMax :: "jsval option"
  cmask :: "jsval option"
  cssClass :: "jsval option"
  htmlAlt :: "jsval option"
  ctype :: "jsval option"

definition emptyCell :: cell where
  "emptyCell = \<lparr> val = None, html = None, match = None, cmp = None, cmpMin = None,
     cmpMax = None, cmask = None, cssClass = None, htmlAlt = None, ctype = None \<rparr>"

text \<open>\<^verbatim>\<open>$hasProp(obj, name)\<close> and the property read \<^verbatim>\<open>obj.name\<close>.\<close>

definition hasProp :: "'a option \<Rightarrow> bool" where
  "hasProp p = (p \<noteq> None)"

definition getProp :: "jsval option \<Rightarrow> jsval" where
  "getProp p = (case p of None \<Rightarrow> JUndefined | Some v \<Rightarrow> v)"

text \<open>A data row: its own properties, each holding a cell object.\<close>

type_synonym row = "(string \<times> cell) list"

text \<open>The properties every row inherits from \<^verbatim>\<open>Object.prototype\<close>: objects that have none of
  the cell properties.\<close>

definition objectPrototype :: "string list" where
  "objectPrototype = [''constructor'', ''__defineGetter__'', ''__defineSetter__'',
     ''hasOwnProperty'', ''__lookupGetter__'', ''__lookupSetter__'', ''isPrototypeOf'',
     ''propertyIsEnumerable'', ''toString'', ''valueOf'', ''__proto__'', ''toLocaleString'']"

text \<open>\<^verbatim>\<open>data[rowID][name]\<close>: \<open>None\<close> when the row or the property does not exist; reading a
  property of that result then throws a TypeError.\<close>

definition rowGet :: "row \<Rightarrow> string \<Rightarrow> cell option" where
  "rowGet r name =
     (case map_of r name of
        Some c \<Rightarrow> Some c
      | None \<Rightarrow> if name \<in> set objectPrototype then Some emptyCell else None)"

definition cellAt :: "row list \<Rightarrow> nat \<Rightarrow> string \<Rightarrow> cell option" where
  "cellAt data rowID name = (if rowID < length data then rowGet (data ! rowID) name else None)"

section \<open>The filter validator (filtersort.js, checkFilter)\<close>

definition op :: "(string \<times> nat) list" where
  "op = [(''=='', 3), (''='', 3), (''!='', 3), (''~'', 3), (''!~'', 3), (''@='', 3),
         (''<'', 3), (''>'', 3), (''AND'', 2), (''OR'', 1)]"

definition isOp :: "string \<Rightarrow> bool" where
  "isOp token = (map_of op token \<noteq> None)"

text \<open>
  \<^verbatim>\<open>typeMap[column.key] = column.type || "str"\<close> for every column, in table order. An
  assignment to the key \<^verbatim>\<open>__proto__\<close> with a string does not create a property.
  The map is a cache filled on first use from the immutable table; the model computes it
  from the table.
\<close>

definition typeOrStr :: "string option \<Rightarrow> string" where
  "typeOrStr t = (case t of None \<Rightarrow> ''str'' | Some ty \<Rightarrow> if ty = [] then ''str'' else ty)"

definition typeMap :: "column list \<Rightarrow> (string \<rightharpoonup> string)" where
  "typeMap table =
     foldl (\<lambda>m c. if key c = ''__proto__'' then m else m(key c \<mapsto> typeOrStr (type c)))
       Map.empty table"

text \<open>An entry of the validator's stack: \<^verbatim>\<open>{token, idx}\<close>; the placeholder pushed for a
  result is \<^verbatim>\<open>{token: "", idx: -1}\<close>.\<close>

type_synonym operand = "string \<times> int"

definition placeholder :: operand where
  "placeholder = ([], - 1)"

text \<open>\<^verbatim>\<open>filterRPN[idx] = v\<close>. For \<open>idx = -1\<close> the assignment creates a property named
  \<^verbatim>\<open>-1\<close> and changes no element; \<open>idx\<close> is otherwise the index of an earlier token.\<close>

definition setToken :: "jsval list \<Rightarrow> int \<Rightarrow> jsval \<Rightarrow> jsval list" where
  "setToken rpn idx v = (if 0 \<le> idx \<and> nat idx < length rpn then rpn[nat idx := v] else rpn)"

text \<open>\<^verbatim>\<open>/^\d{4}-\d{2}-\d{2}$/\<close>\<close>

definition isDateLiteral :: "string \<Rightarrow> bool" where
  "isDateLiteral s =
     (length s = 10 \<and> list_all isDigit (take 4 s) \<and> s ! 4 = CHR ''-''
      \<and> list_all isDigit (take 2 (drop 5 s)) \<and> s ! 7 = CHR ''-''
      \<and> list_all isDigit (drop 8 s))"

text \<open>The conversion of the right operand of \<^verbatim>\<open><\<close>, \<^verbatim>\<open>>\<close> and \<^verbatim>\<open>@=\<close> on an \<^verbatim>\<open>ip\<close> field.\<close>

definition convertIp :: "host \<Rightarrow> string \<Rightarrow> int \<Rightarrow> jsval list \<Rightarrow> string + jsval list" where
  "convertIp h tok idx rpn =
     (let v = ip2long h tok in
      if \<not> num_truthy v then Inl (''Bad IP address: '' @ tok)
      else Inr (setToken rpn idx (JNum v)))"

definition convertDate :: "host \<Rightarrow> string \<Rightarrow> int \<Rightarrow> jsval list \<Rightarrow> string + jsval list" where
  "convertDate h tok idx rpn =
     (if \<not> isDateLiteral tok then Inl (''Bad date format (use YYYY-MM-DD): '' @ tok)
      else
        (let v = dateParse h (tok @ ''T12:00:00Z'') in
         if \<not> num_truthy v \<or> num_lt v (Fin 934366740000) \<or> num_lt (Fin 2147483647000) v
         then Inl (''Unsupported date: '' @ tok)
         else Inr (setToken rpn idx (JNum v))))"

definition convertOrdered :: "host \<Rightarrow> string \<Rightarrow> string \<Rightarrow> int \<Rightarrow> jsval list \<Rightarrow> string + jsval list" where
  "convertOrdered h ty tok idx rpn =
     (if ty = ''ip'' then convertIp h tok idx rpn
      else if ty = ''date'' then convertDate h tok idx rpn
      else if ty = ''int'' \<or> ty = ''intrange'' then
        Inr (setToken rpn idx (JNum (let n = parseInt tok in if num_truthy n then n else Fin 0)))
      else if ty = ''version'' then Inr (setToken rpn idx (JStr (version2hash tok)))
      else if ty = ''str'' then Inr (setToken rpn idx (JStr (toUpperCase tok)))
      else Inr rpn)"

text \<open>\<^verbatim>\<open>String(o2.token).charAt(0) === "\""\<close> and the literal without its quotes,
  \<^verbatim>\<open>o2.token.substring(1, o2.token.length - 1)\<close>.\<close>

definition isQuoted :: "string \<Rightarrow> bool" where
  "isQuoted t = (take 1 t = [CHR 0x22])"

definition unquote :: "string \<Rightarrow> string" where
  "unquote t = (if isQuoted t then substring t 1 (int (length t) - 1) else t)"

text \<open>The body of the operator branch, once both operands are there.\<close>

definition checkOperator ::
  "host \<Rightarrow> (string \<rightharpoonup> string) \<Rightarrow> string \<Rightarrow> operand \<Rightarrow> operand \<Rightarrow> jsval list \<Rightarrow> string + jsval list" where
  "checkOperator h tm token o1 o2 rpn =
     (if snd o1 \<noteq> - 1 \<and> tm (fst o1) = None then Inl (''Invalid field name: '' @ fst o1)
      else
        (let tok = unquote (fst o2);
             rpn1 = (if isQuoted (fst o2) then setToken rpn (snd o2) (JStr tok) else rpn)
         in
         if token = ''=='' \<or> token = ''='' \<or> token = ''!='' then
           Inr (setToken rpn1 (snd o2) (JStr (toUpperCase tok)))
         else if token = ''~'' \<or> token = ''!~'' then
           (if regexpValid h tok then Inr (setToken rpn1 (snd o2) (JRegExp tok))
            else Inl (''Invalid regular expression: '' @ tok))
         else if token = ''<'' \<or> token = ''>'' then
           convertOrdered h (typeOrStr (tm (fst o1))) tok (snd o2) rpn1
         else if token = ''@='' then
           (if tm (fst o1) \<noteq> Some ''ip'' then Inl ''@= operator can only be used with IP-like fields''
            else convertIp h tok (snd o2) rpn1)
         else Inr rpn1))"

text \<open>The \<^verbatim>\<open>every\<close> loop: \<open>i\<close> is the index of the next token, \<open>st\<close> the stack (top first),
  \<open>rpn\<close> the array being rewritten.\<close>

fun checkTokens ::
  "host \<Rightarrow> (string \<rightharpoonup> string) \<Rightarrow> nat \<Rightarrow> string list \<Rightarrow> operand list \<Rightarrow> jsval list
     \<Rightarrow> string + (operand list \<times> jsval list)" where
  "checkTokens h tm i [] st rpn = Inr (st, rpn)"
| "checkTokens h tm i (token # ts) st rpn =
     (if isOp token then
        (case st of
           o2 # o1 # rest \<Rightarrow>
             (case checkOperator h tm token o1 o2 rpn of
                Inl e \<Rightarrow> Inl e
              | Inr rpn' \<Rightarrow> checkTokens h tm (Suc i) ts (placeholder # rest) rpn')
         | _ \<Rightarrow> Inl ''Filter syntax error (1)'')
      else if token = ''!'' then
        (case st of
           o1 # rest \<Rightarrow> checkTokens h tm (Suc i) ts (placeholder # rest) rpn
         | [] \<Rightarrow> Inl ''Filter syntax error (2)'')
      else checkTokens h tm (Suc i) ts ((token, int i) # st) rpn)"

text \<open>\<open>Inl\<close> is the error message returned, \<open>Inr\<close> the rewritten array when the result is
  \<^verbatim>\<open>true\<close>.\<close>

definition checkFilter :: "host \<Rightarrow> column list \<Rightarrow> string list \<Rightarrow> string + jsval list" where
  "checkFilter h table filterRPN =
     (case checkTokens h (typeMap table) 0 filterRPN [] (map JStr filterRPN) of
        Inl e \<Rightarrow> Inl e
      | Inr (st, rpn) \<Rightarrow> if length st \<noteq> 1 then Inl ''Filter syntax error (3)'' else Inr rpn)"

section \<open>The row evaluator (filtersort.js, runFilter)\<close>

text \<open>\<^verbatim>\<open>stack.pop()\<close>: \<^verbatim>\<open>undefined\<close> from an empty stack, which stays empty.\<close>

definition pop :: "jsval list \<Rightarrow> jsval \<times> jsval list" where
  "pop st = (case st of [] \<Rightarrow> (JUndefined, []) | x # xs \<Rightarrow> (x, xs))"

text \<open>\<open>Inl\<close> is a TypeError thrown by the host; nothing in the sources catches it.\<close>

definition typeError :: "string + 'a" where
  "typeError = Inl ''TypeError''"

definition withCell :: "row list \<Rightarrow> nat \<Rightarrow> host \<Rightarrow> jsval \<Rightarrow> (cell \<Rightarrow> jsval) \<Rightarrow> string + jsval" where
  "withCell data rowID h o1 f =
     (case cellAt data rowID (toStr h o1) of None \<Rightarrow> typeError | Some c \<Rightarrow> Inr (f c))"

definition evalOperator :: "host \<Rightarrow> row list \<Rightarrow> nat \<Rightarrow> string \<Rightarrow> jsval \<Rightarrow> jsval \<Rightarrow> string + jsval" where
  "evalOperator h data rowID token o1 o2 =
     (if token = ''='' \<or> token = ''=='' then
        withCell data rowID h o1 (\<lambda>c. JBool (strictEq (getProp (match c)) o2))
      else if token = ''!='' then
        withCell data rowID h o1 (\<lambda>c. JBool (\<not> strictEq (getProp (match c)) o2))
      else if token = ''~'' then
        (case o2 of
           JRegExp p \<Rightarrow> withCell data rowID h o1 (\<lambda>c. JBool (regexpTest h p (toStr h (getProp (match c)))))
         | _ \<Rightarrow> typeError)
      else if token = ''!~'' then
        (case o2 of
           JRegExp p \<Rightarrow> withCell data rowID h o1 (\<lambda>c. JBool (\<not> regexpTest h p (toStr h (getProp (match c)))))
         | _ \<Rightarrow> typeError)
      else if token = ''@='' then
        withCell data rowID h o1 (\<lambda>c. JBool (strictEq (getProp (cmpMin c))
          (JNum (Fin ((toInt32 (toNum h o2) AND toInt32 (toNum h (getProp (cmask c)))) mod 4294967296)))))
      else if token = ''<'' then
        withCell data rowID h o1 (\<lambda>c. JBool (js_lt h (if hasProp (cmpMax c) then getProp (cmpMax c) else getProp (cmp c)) o2))
      else if token = ''>'' then
        withCell data rowID h o1 (\<lambda>c. JBool (js_lt h o2 (if hasProp (cmpMin c) then getProp (cmpMin c) else getProp (cmp c))))
      else if token = ''AND'' then
        Inr (JNum (Fin (toInt32 (toNum h o1) AND toInt32 (toNum h o2))))
      else if token = ''OR'' then
        Inr (JNum (Fin (toInt32 (toNum h o1) OR toInt32 (toNum h o2))))
      else Inr JUndefined)"

text \<open>One token of the replay. A token of the validated array is a string, a number or a
  regular expression; only a string can be a key of \<open>op\<close> or the unary \<^verbatim>\<open>!\<close>.\<close>

definition evalToken :: "host \<Rightarrow> row list \<Rightarrow> nat \<Rightarrow> jsval \<Rightarrow> jsval list \<Rightarrow> string + jsval list" where
  "evalToken h data rowID token st =
     (if isOp (toStr h token) then
        (let (o2, st1) = pop st; (o1, st2) = pop st1 in
         case evalOperator h data rowID (toStr h token) o1 o2 of
           Inl e \<Rightarrow> Inl e
         | Inr res \<Rightarrow> Inr (res # st2))
      else if token = JStr ''!'' then
        (let (o1, st1) = pop st in Inr (JBool (\<not> truthy o1) # st1))
      else Inr (token # st))"

fun evalRow :: "host \<Rightarrow> row list \<Rightarrow> nat \<Rightarrow> jsval list \<Rightarrow> jsval list \<Rightarrow> string + jsval list" where
  "evalRow h data rowID [] st = Inr st"
| "evalRow h data rowID (token # ts) st =
     (case evalToken h data rowID token st of
        Inl e \<Rightarrow> Inl e
      | Inr st' \<Rightarrow> evalRow h data rowID ts st')"

text \<open>What a call can come to: a returned value (\<^verbatim>\<open>true\<close>, \<^verbatim>\<open>false\<close> or an error message),
  an exception that nothing catches, or a loop that never ends.\<close>

datatype answer = RTrue | RFalse | RError string | RThrows string | RDiverges

text \<open>The loop over the display array; the entries already rewritten stay rewritten when
  a later row stops the loop.\<close>

fun runFilter :: "host \<Rightarrow> row list \<Rightarrow> jsval list \<Rightarrow> nat list \<Rightarrow> answer \<times> nat list" where
  "runFilter h data filterRPN [] = (RTrue, [])"
| "runFilter h data filterRPN (e # es) =
     (case evalRow h data (e AND 1048575) filterRPN [] of
        Inl exn \<Rightarrow> (RThrows exn, e # es)
      | Inr st \<Rightarrow>
          if length st = 1 then
            (let e' = (if truthy (hd st) then e AND 1048575 else e OR 1048576);
                 (r, es') = runFilter h data filterRPN es
             in (r, e' # es'))
          else (RError ''Filter syntax error (4)'', e # es))"

section \<open>The tokenizer (filtersort.js, getTokens)\<close>

text \<open>
  The three regular expressions of \<^verbatim>\<open>getTokens\<close> are built from the token lists, which are
  joined into the pattern as they are. The model reads every token as a literal, which
  is what the pattern means as long as no token holds a metacharacter and no token of
  the second list starts with white space. Each matcher returns the number of
  characters of \<^verbatim>\<open>match[0]\<close>, or \<open>None\<close> for \<^verbatim>\<open>null\<close>.
\<close>

definition startsWith :: "string \<Rightarrow> string \<Rightarrow> bool" where
  "startsWith s p = (take (length p) s = p)"

text \<open>\<^verbatim>\<open>"[^"]*"\<close> at the start of \<open>s\<close>: the length of the quoted literal.\<close>

definition quotedLen :: "string \<Rightarrow> nat option" where
  "quotedLen s =
     (case s of
        [] \<Rightarrow> None
      | c # cs \<Rightarrow>
          if c = CHR 0x22 \<and> CHR 0x22 \<in> set cs
          then Some (length (takeWhile (\<lambda>x. x \<noteq> CHR 0x22) cs) + 2)
          else None)"

fun firstLiteral :: "string list \<Rightarrow> string \<Rightarrow> nat option" where
  "firstLiteral [] s = None"
| "firstLiteral (t # ts) s = (if startsWith s t then Some (length t) else firstLiteral ts s)"

text \<open>\<^verbatim>\<open>^\s*("[^"]*"|...|!\(|NOT\(|\)|\()\s*\<close>\<close>

definition matchNonWords :: "string list \<Rightarrow> string \<Rightarrow> nat option" where
  "matchNonWords nonWordTokens s =
     (let lead = takeWhile isSpace s; r = dropWhile isSpace s;
          alt = (case quotedLen r of
                   Some n \<Rightarrow> Some n
                 | None \<Rightarrow> firstLiteral (nonWordTokens @ [''!('', ''NOT('', '')'', ''('']) r)
      in case alt of
           None \<Rightarrow> None
         | Some n \<Rightarrow> Some (length lead + n + length (takeWhile isSpace (drop n r))))"

text \<open>\<^verbatim>\<open>\b\<close> between \<open>prev\<close> (the last character read, if any) and \<open>rest\<close>.\<close>

definition wordBoundary :: "char option \<Rightarrow> string \<Rightarrow> bool" where
  "wordBoundary prev rest =
     ((case prev of None \<Rightarrow> False | Some c \<Rightarrow> isWordChar c)
        \<noteq> (case rest of [] \<Rightarrow> False | c # cs \<Rightarrow> isWordChar c))"

text \<open>\<^verbatim>\<open>\s*\b\<close> after a word token that ends with \<open>prev\<close>: the white space taken, all
  of it or none.\<close>

definition trailingSpace :: "char option \<Rightarrow> string \<Rightarrow> nat option" where
  "trailingSpace prev rest =
     (let ws = takeWhile isSpace rest in
      if ws \<noteq> [] \<and> wordBoundary (Some (last ws)) (dropWhile isSpace rest) then Some (length ws)
      else if wordBoundary prev rest then Some 0
      else None)"

text \<open>The alternatives of \<^verbatim>\<open>^\b\s*(...)\s*\b\<close> with flag \<^verbatim>\<open>i\<close>, in order; \<open>s\<close> starts with a
  word character.\<close>

fun firstWord :: "string list \<Rightarrow> string \<Rightarrow> nat option" where
  "firstWord [] s = None"
| "firstWord (t # ts) s =
     (if toUpperCase (take (length t) s) = toUpperCase t then
        (case trailingSpace (if t = [] then None else Some (s ! (length t - 1))) (drop (length t) s) of
           Some k \<Rightarrow> Some (length t + k)
         | None \<Rightarrow> firstWord ts s)
      else firstWord ts s)"

definition matchWords :: "string list \<Rightarrow> string \<Rightarrow> nat option" where
  "matchWords wordTokens s =
     (case s of
        [] \<Rightarrow> None
      | c # cs \<Rightarrow> if isWordChar c then firstWord wordTokens s else None)"

text \<open>\<^verbatim>\<open>/^\s*([^\s()]+)/\<close>\<close>

definition matchUnquoted :: "string \<Rightarrow> nat option" where
  "matchUnquoted s =
     (let lead = takeWhile isSpace s;
          body = takeWhile (\<lambda>c. \<not> isSpace c \<and> c \<noteq> CHR ''('' \<and> c \<noteq> CHR '')'') (dropWhile isSpace s)
      in if body = [] then None else Some (length lead + length body))"

text \<open>One round of the \<^verbatim>\<open>while (str)\<close> loop: how far the offset moves.\<close>

definition nextToken :: "string list \<Rightarrow> string list \<Rightarrow> string \<Rightarrow> nat" where
  "nextToken wordTokens nonWordTokens s =
     (case matchNonWords nonWordTokens s of
        Some n \<Rightarrow> n
      | None \<Rightarrow>
          (case matchWords wordTokens s of
             Some n \<Rightarrow> n
           | None \<Rightarrow> (case matchUnquoted s of Some n \<Rightarrow> n | None \<Rightarrow> length s)))"

text \<open>The loop. A round that matches the empty string leaves the offset where it is, and
  the loop never ends: \<open>None\<close>.\<close>

function scanTokens :: "string list \<Rightarrow> string list \<Rightarrow> string \<Rightarrow> string list option" where
  "scanTokens wordTokens nonWordTokens s =
     (if s = [] then Some []
      else
        (let n = nextToken wordTokens nonWordTokens s in
         if n = 0 then None
         else
           (case scanTokens wordTokens nonWordTokens (drop n s) of
              None \<Rightarrow> None
            | Some tokens \<Rightarrow> Some (trim (take n s) # tokens))))"
  by pat_completeness auto
termination
  by (relation "measure (\<lambda>(w, nw, s). length s)") auto

declare scanTokens.simps [simp del]

definition getTokens :: "string \<Rightarrow> string list \<Rightarrow> string list \<Rightarrow> string list option" where
  "getTokens input wordTokens nonWordTokens =
     (if wordTokens = [] \<or> nonWordTokens = [] then Some []
      else scanTokens wordTokens nonWordTokens input)"

section \<open>The expression parser (filtersort.js, tokensToRPN)\<close>

definition precedence :: "string \<Rightarrow> nat" where
  "precedence t = (case map_of op t of Some n \<Rightarrow> n | None \<Rightarrow> 0)"

text \<open>The stacks have their top first. \<open>popOperators\<close> is the \<^verbatim>\<open>while\<close> loop of the operator
  branch, \<open>popToParen\<close> the one of the closing parenthesis, which never ends when the
  stack holds no opening parenthesis (\<open>None\<close>): \<^verbatim>\<open>peek\<close> of the empty stack is
  \<^verbatim>\<open>undefined\<close>, and the loop goes on pushing \<^verbatim>\<open>undefined\<close> to the output.\<close>

fun popOperators :: "string \<Rightarrow> string list \<Rightarrow> string list \<Rightarrow> string list \<times> string list" where
  "popOperators tokenUpper output [] = (output, [])"
| "popOperators tokenUpper output (x # stack) =
     (if isOp x \<and> precedence tokenUpper \<le> precedence x
      then popOperators tokenUpper (output @ [x]) stack
      else (output, x # stack))"

fun popToParen :: "string list \<Rightarrow> string list \<Rightarrow> (string list \<times> string list) option" where
  "popToParen output [] = None"
| "popToParen output (x # stack) =
     (if x \<noteq> ''('' \<and> x \<noteq> ''!('' \<and> x \<noteq> ''NOT(''
      then popToParen (output @ [x]) stack
      else Some (if x \<noteq> ''('' then output @ [''!''] else output, stack))"

definition rpnStep :: "string list \<times> string list \<Rightarrow> string \<Rightarrow> (string list \<times> string list) option" where
  "rpnStep st token =
     (let output = fst st; stack = snd st; tokenUpper = toUpperCase token in
      if isOp tokenUpper then
        (let (output', stack') = popOperators tokenUpper output stack
         in Some (output', tokenUpper # stack'))
      else if token = ''('' \<or> token = ''!('' \<or> tokenUpper = ''NOT('' then Some (output, token # stack)
      else if token = '')'' then popToParen output stack
      else Some (output @ [token], stack))"

fun rpnLoop :: "string list \<times> string list \<Rightarrow> string list \<Rightarrow> (string list \<times> string list) option" where
  "rpnLoop st [] = Some st"
| "rpnLoop st (token # ts) = (case rpnStep st token of None \<Rightarrow> None | Some st' \<Rightarrow> rpnLoop st' ts)"

definition tokensToRPN :: "string list \<Rightarrow> string list option" where
  "tokensToRPN tokens =
     (case rpnLoop ([], []) tokens of
        None \<Rightarrow> None
      | Some (output, stack) \<Rightarrow> Some (output @ stack))"

section \<open>The value normalizer (common.js, normalizeValue)\<close>

text \<open>\<^verbatim>\<open>escapeHtml\<close> and \<^verbatim>\<open>html2text\<close> go through the spare DOM element of the host.\<close>

definition escapeHtml :: "host \<Rightarrow> string \<Rightarrow> string" where
  "escapeHtml h s = textToHtml h s"

definition html2text :: "host \<Rightarrow> string \<Rightarrow> string" where
  "html2text h s = htmlToText h s"

text \<open>\<^verbatim>\<open>value2array(obj, prop)\<close>: the new value of the property.\<close>

definition value2array :: "jsval option \<Rightarrow> jsval" where
  "value2array p =
     (case getProp p of
        JArr vs \<Rightarrow> JArr vs
      | JStr s \<Rightarrow> if s \<noteq> [] then JArr [JStr s] else JArr []
      | _ \<Rightarrow> JArr [])"

text \<open>\<^verbatim>\<open>cell.cssClass.push("bad-value")\<close>; the property holds an array by then.\<close>

definition pushBadValue :: "cell \<Rightarrow> cell" where
  "pushBadValue c =
     (case getProp (cssClass c) of
        JArr vs \<Rightarrow> c\<lparr> cssClass := Some (JArr (vs @ [JStr ''bad-value''])) \<rparr>
      | _ \<Rightarrow> c)"

text \<open>\<^verbatim>\<open>cidr2long\<close>; \<open>CIDRmasks[bits]\<close> is \<^verbatim>\<open>~(0xFFFFFFFF >>> bits) >>> 0\<close>.\<close>

definition cidr2long :: "jsnum \<Rightarrow> jsnum" where
  "cidr2long suffix =
     (case suffix of
        Fin k \<Rightarrow> if 0 < k \<and> k < 32 then Fin (4294967296 - 2 ^ (32 - nat k)) else Fin 4294967295
      | _ \<Rightarrow> Fin 4294967295)"

text \<open>\<^verbatim>\<open>new Date(n)\<close> clips the time value.\<close>

definition timeClip :: "jsnum \<Rightarrow> jsnum" where
  "timeClip n =
     (case n of Fin t \<Rightarrow> if \<bar>t\<bar> \<le> 8640000000000000 then Fin t else NaN | _ \<Rightarrow> NaN)"

text \<open>\<^verbatim>\<open>formatDate(date, dateFormat)\<close>. \<^verbatim>\<open>toISOString\<close> throws a RangeError on an invalid
  date (\<open>Inl\<close>).\<close>

definition formatDate :: "host \<Rightarrow> options \<Rightarrow> jsnum \<Rightarrow> string option \<Rightarrow> string + string" where
  "formatDate h opts date fmt =
     (let chosen = (case fmt of
                      Some f \<Rightarrow> if f \<noteq> [] then Some f else optDateFormat opts
                    | None \<Rightarrow> optDateFormat opts)
      in case (momentFormat h, chosen) of
           (Some format, Some f) \<Rightarrow>
             if f \<noteq> [] then Inr (format date f)
             else (case date of Fin t \<Rightarrow> Inr (takeWhile (\<lambda>c. c \<noteq> CHR ''T'') (toISOString h t))
                   | _ \<Rightarrow> Inl ''RangeError'')
         | _ \<Rightarrow> (case date of Fin t \<Rightarrow> Inr (takeWhile (\<lambda>c. c \<noteq> CHR ''T'') (toISOString h t))
                 | _ \<Rightarrow> Inl ''RangeError''))"

text \<open>\<^verbatim>\<open>RegExp("([0-9]+)([^0-9]+([0-9]+))?").exec(s)\<close>: groups 1 and 3.\<close>

definition execIntrange :: "string \<Rightarrow> (string \<times> string option) option" where
  "execIntrange s =
     (let s1 = dropWhile (\<lambda>c. \<not> isDigit c) s in
      if s1 = [] then None
      else
        (let m1 = takeWhile isDigit s1;
             r = dropWhile (\<lambda>c. \<not> isDigit c) (dropWhile isDigit s1)
         in if r \<noteq> [] then Some (m1, Some (takeWhile isDigit r)) else Some (m1, None)))"

text \<open>
  The regular expression of the \<^verbatim>\<open>ip\<close> branch,
  \<^verbatim>\<open>(\d{1,3}\.\d{1,3}\.\d{1,3}\.\d{1,3}(?!\d))(\s*\/((\d{1,3})(\.\d{1,3}\.\d{1,3}\.\d{1,3})?)?)?\<close>:
  groups 1 and 3 of the leftmost match. \<open>octetDot\<close> is \<^verbatim>\<open>\d{1,3}\.\<close>: a run of one to three
  digits with a dot right after it.
\<close>

definition octetDot :: "string \<Rightarrow> (string \<times> string) option" where
  "octetDot s =
     (let d = takeWhile isDigit s; r = dropWhile isDigit s in
      if 1 \<le> length d \<and> length d \<le> 3 \<and> take 1 r = ''.'' then Some (d @ ''.'', drop 1 r) else None)"

text \<open>\<^verbatim>\<open>\d{1,3}(?!\d)\<close>\<close>

definition octetEnd :: "string \<Rightarrow> (string \<times> string) option" where
  "octetEnd s =
     (let d = takeWhile isDigit s; r = dropWhile isDigit s in
      if 1 \<le> length d \<and> length d \<le> 3 then Some (d, r) else None)"

text \<open>\<^verbatim>\<open>\d{1,3}\<close> with nothing required after it: up to three digits, greedily.\<close>

definition octetGreedy :: "string \<Rightarrow> (string \<times> string) option" where
  "octetGreedy s =
     (let d = take 3 (takeWhile isDigit s) in
      if d = [] then None else Some (d, drop (length d) s))"

definition quadAt :: "string \<Rightarrow> (string \<times> string) option" where
  "quadAt s =
     (case octetDot s of None \<Rightarrow> None | Some (a, r1) \<Rightarrow>
      case octetDot r1 of None \<Rightarrow> None | Some (b, r2) \<Rightarrow>
      case octetDot r2 of None \<Rightarrow> None | Some (c, r3) \<Rightarrow>
      case octetEnd r3 of None \<Rightarrow> None | Some (d, r4) \<Rightarrow> Some (a @ b @ c @ d, r4))"

fun findQuad :: "string \<Rightarrow> (string \<times> string) option" where
  "findQuad [] = None"
| "findQuad (c # cs) = (case quadAt (c # cs) of Some m \<Rightarrow> Some m | None \<Rightarrow> findQuad cs)"

text \<open>\<^verbatim>\<open>\.\d{1,3}\.\d{1,3}\.\d{1,3}\<close>, the dotted tail of a mask.\<close>

definition maskTail :: "string \<Rightarrow> string option" where
  "maskTail s =
     (if take 1 s \<noteq> ''.'' then None else
      case octetDot (drop 1 s) of None \<Rightarrow> None | Some (b, r2) \<Rightarrow>
      case octetDot r2 of None \<Rightarrow> None | Some (c, r3) \<Rightarrow>
      case octetGreedy r3 of None \<Rightarrow> None | Some (d, r4) \<Rightarrow> Some (''.'' @ b @ c @ d))"

definition execIp :: "string \<Rightarrow> (string \<times> string option) option" where
  "execIp s =
     (case findQuad s of
        None \<Rightarrow> None
      | Some (m1, r) \<Rightarrow>
          (let r1 = dropWhile isSpace r in
           if take 1 r1 \<noteq> ''/'' then Some (m1, None)
           else
             (case octetGreedy (drop 1 r1) of
                None \<Rightarrow> Some (m1, None)
              | Some (d, r2) \<Rightarrow>
                  (case maskTail r2 of
                     None \<Rightarrow> Some (m1, Some d)
                   | Some t \<Rightarrow> Some (m1, Some (d @ t))))))"

text \<open>The two tests that guard every derived property: the property is missing or not a
  string; missing, not a number, or \<open>NaN\<close>.\<close>

definition needStr :: "jsval option \<Rightarrow> bool" where
  "needStr p = (\<not> hasProp p \<or> typeOf (getProp p) \<noteq> ''String'')"

definition needNum :: "host \<Rightarrow> jsval option \<Rightarrow> bool" where
  "needNum h p = (\<not> hasProp p \<or> typeOf (getProp p) \<noteq> ''Number'' \<or> isNaN h (getProp p))"

text \<open>The guarded assignments
  \<^verbatim>\<open>if (!$hasProp(cell, "html") || $typeOf(cell.html) !== "String") cell.html = s\<close> and
  \<^verbatim>\<open>if (!$hasProp(cell, "cmp") || $typeOf(cell.cmp) !== "Number" || isNaN(cell.cmp)) cell.cmp = n\<close>:
  the property afterwards.\<close>

definition keepStr :: "jsval option \<Rightarrow> string \<Rightarrow> jsval option" where
  "keepStr p s = (if needStr p then Some (JStr s) else p)"

definition keepNum :: "host \<Rightarrow> jsval option \<Rightarrow> jsnum \<Rightarrow> jsval option" where
  "keepNum h p n = (if needNum h p then Some (JNum n) else p)"

text \<open>A row entry before normalisation: a plain object, taken as the cell, or any other
  value (the shorthand), wrapped into \<^verbatim>\<open>{value: ...}\<close>. A missing entry is the shorthand
  \<^verbatim>\<open>undefined\<close>. A plain object given as \<open>Shorthand JObject\<close> is a cell with none of the
  properties modelled.\<close>

datatype entry = Shorthand jsval | CellObj cell

definition initCell :: "host \<Rightarrow> entry \<Rightarrow> cell" where
  "initCell h e =
     (case e of
        CellObj c \<Rightarrow>
          (case html c of
             Some (JStr s) \<Rightarrow> if \<not> hasProp (val c) then c\<lparr> val := Some (JStr (html2text h s)) \<rparr> else c
           | _ \<Rightarrow> c)
      | Shorthand v \<Rightarrow> if typeOf v = ''Object'' then emptyCell else emptyCell\<lparr> val := Some v \<rparr>)"

text \<open>The two properties set to \<^verbatim>\<open>undefined\<close> by the last \<^verbatim>\<open>else\<close> of a branch.\<close>

definition setUndefined :: "cell \<Rightarrow> cell" where
  "setUndefined c = c\<lparr> html := Some JUndefined, match := Some JUndefined \<rparr>"

text \<open>\<^verbatim>\<open>cell.match = html2text(cell.html).toUpperCase()\<close> under its guard.\<close>

definition matchFromHtml :: "host \<Rightarrow> cell \<Rightarrow> cell" where
  "matchFromHtml h c =
     c\<lparr> match := keepStr (match c) (toUpperCase (html2text h (toStr h (getProp (html c))))) \<rparr>"

definition normInt :: "host \<Rightarrow> cell \<Rightarrow> cell" where
  "normInt h c =
     (case getProp (val c) of
        JNum n \<Rightarrow>
          if n \<noteq> NaN then
            c\<lparr> html := keepStr (html c) (num_toString n),
               cmp := keepNum h (cmp c) n,
               match := keepStr (match c) (toUpperCase (num_toString n)) \<rparr>
          else (setUndefined c)\<lparr> cmp := Some (JNum NegInf) \<rparr>
      | JStr s \<Rightarrow>
          if \<not> isNaN h (JStr s) then
            c\<lparr> html := Some (JStr (num_toString (parseInt s))),
               cmp := Some (JNum (parseInt s)),
               match := Some (JNum (parseInt s)) \<rparr>
          else
            pushBadValue (c\<lparr> html := Some (JStr (escapeHtml h s)),
               cmp := Some (JNum NegInf),
               match := Some (JStr (toUpperCase (html2text h (escapeHtml h s)))) \<rparr>)
      | _ \<Rightarrow> (setUndefined c)\<lparr> cmp := Some (JNum NegInf) \<rparr>)"

definition rangeBounds :: "host \<Rightarrow> jsnum \<Rightarrow> jsnum \<Rightarrow> cell \<Rightarrow> cell" where
  "rangeBounds h lo hi c = c\<lparr> cmpMin := keepNum h (cmpMin c) lo, cmpMax := keepNum h (cmpMax c) hi \<rparr>"

definition badRange :: "cell \<Rightarrow> cell" where
  "badRange c = (setUndefined c)\<lparr> cmpMin := Some (JNum NegInf), cmpMax := Some (JNum NegInf) \<rparr>"

definition normIntrange :: "host \<Rightarrow> cell \<Rightarrow> cell" where
  "normIntrange h c =
     (case getProp (val c) of
        JNum n \<Rightarrow>
          if n \<noteq> NaN then
            (rangeBounds h n n (c\<lparr> html := keepStr (html c) (num_toString n) \<rparr>))
              \<lparr> match := keepStr (match c) (toUpperCase (num_toString n)) \<rparr>
          else badRange c
      | JStr s \<Rightarrow>
          (case execIntrange s of
             Some (m1, m3) \<Rightarrow>
               (let rangeMin = parseInt m1;
                    rangeMax = (case m3 of Some m \<Rightarrow> parseInt m | None \<Rightarrow> rangeMin)
                in (rangeBounds h rangeMin rangeMax (c\<lparr> html := keepStr (html c) (escapeHtml h s) \<rparr>))
                     \<lparr> match := keepStr (match c) (toUpperCase s) \<rparr>)
           | None \<Rightarrow>
               pushBadValue (c\<lparr> html := Some (JStr (escapeHtml h s)),
                  cmpMin := Some (JNum NegInf),
                  cmpMax := Some (JNum NegInf),
                  match := Some (JStr (toUpperCase (html2text h (escapeHtml h s)))) \<rparr>))
      | _ \<Rightarrow> badRange c)"

text \<open>The network mask of the \<^verbatim>\<open>ip\<close> branch; its guard tests the type of \<^verbatim>\<open>cmpMax\<close>.\<close>

definition setMask :: "host \<Rightarrow> jsnum \<Rightarrow> cell \<Rightarrow> cell" where
  "setMask h ipMask c =
     (if \<not> hasProp (cmask c) \<or> typeOf (getProp (cmpMax c)) \<noteq> ''Number'' \<or> isNaN h (getProp (cmask c))
      then c\<lparr> cmask := Some (JNum ipMask) \<rparr> else c)"

definition normIp :: "host \<Rightarrow> cell \<Rightarrow> cell" where
  "normIp h c =
     (case getProp (val c) of
        JStr s \<Rightarrow>
          (let c1 = matchFromHtml h (c\<lparr> html := keepStr (html c) (escapeHtml h s) \<rparr>);
               matches = execIp s;
               ipAddr = (case matches of Some (m1, m3) \<Rightarrow> ip2long h m1 | None \<Rightarrow> Fin 0);
               maskStr = (case matches of Some (m1, Some m3) \<Rightarrow> m3 | _ \<Rightarrow> ''32'');
               ipMask = (if CHR ''.'' \<in> set maskStr then ip2long h maskStr
                         else cidr2long (parseInt maskStr));
               c2 = rangeBounds h
                      (Fin ((toInt32 ipAddr AND toInt32 ipMask) mod 4294967296))
                      (Fin ((toInt32 ipAddr OR NOT (toInt32 ipMask)) mod 4294967296)) c1;
               c3 = setMask h ipMask c2
           in if \<not> num_truthy ipAddr then pushBadValue c3 else c3)
      | _ \<Rightarrow> badRange c)"

text \<open>The branch of \<^verbatim>\<open>date\<close> for a Date object or a positive number: \<open>date\<close> is the time value
  of the date. \<^verbatim>\<open>formatDate\<close> is called only when \<^verbatim>\<open>html\<close> is to be set.\<close>

definition fromDate :: "host \<Rightarrow> options \<Rightarrow> column \<Rightarrow> jsnum \<Rightarrow> cell \<Rightarrow> string + cell" where
  "fromDate h opts col date c =
     (case (if needStr (html c) then formatDate h opts date (dateFormat col) else Inr []) of
        Inl exn \<Rightarrow> Inl exn
      | Inr text \<Rightarrow>
          Inr (matchFromHtml h
                 (c\<lparr> html := keepStr (html c) (escapeHtml h text), cmp := keepNum h (cmp c) date \<rparr>)))"

definition badDate :: "cell \<Rightarrow> cell" where
  "badDate c = (setUndefined c)\<lparr> cmp := Some (JNum (Fin 0)) \<rparr>"

definition normDate :: "host \<Rightarrow> options \<Rightarrow> column \<Rightarrow> cell \<Rightarrow> string + cell" where
  "normDate h opts col c =
     (case getProp (val c) of
        JDate t \<Rightarrow> if t \<noteq> NaN then fromDate h opts col t c else Inr (badDate c)
      | JNum n \<Rightarrow>
          if num_lt (Fin 0) n
          then fromDate h opts col
                 (timeClip (if num_lt n (Fin 10000000000) then num_mul n (Fin 1000) else n)) c
          else Inr (badDate c)
      | JStr s \<Rightarrow>
          (let c1 = matchFromHtml h (c\<lparr> html := keepStr (html c) (escapeHtml h s) \<rparr>);
               date = dateParse h (if isDateLiteral s then s @ ''T12:00:00Z'' else s)
           in if date \<noteq> NaN
              then Inr (c1\<lparr> cmp := keepNum h (cmp c1) date \<rparr>)
              else Inr (pushBadValue (c1\<lparr> cmp := Some (JNum (Fin 0)) \<rparr>)))
      | _ \<Rightarrow> Inr (badDate c))"

definition badText :: "cell \<Rightarrow> cell" where
  "badText c = (setUndefined c)\<lparr> cmp := Some (JStr []) \<rparr>"

definition goodVersion :: "host \<Rightarrow> jsval \<Rightarrow> cell \<Rightarrow> cell" where
  "goodVersion h v c =
     matchFromHtml h
       (c\<lparr> html := keepStr (html c) (escapeHtml h (toStr h v)),
           cmp := keepStr (cmp c) (version2hash (toStr h v)) \<rparr>)"

definition normVersion :: "host \<Rightarrow> cell \<Rightarrow> cell" where
  "normVersion h c =
     (case getProp (val c) of
        JStr s \<Rightarrow> goodVersion h (JStr s) c
      | JNum n \<Rightarrow> if num_lt (Fin 0) n then goodVersion h (JNum n) c else badText c
      | _ \<Rightarrow> badText c)"

definition scalarText :: "host \<Rightarrow> string \<Rightarrow> cell \<Rightarrow> cell" where
  "scalarText h text c =
     c\<lparr> html := Some (JStr (escapeHtml h text)),
        cmp := Some (JStr (toUpperCase text)),
        match := Some (JStr (toUpperCase text)) \<rparr>"

definition normStr :: "host \<Rightarrow> cell \<Rightarrow> cell" where
  "normStr h c =
     (case getProp (val c) of
        JStr s \<Rightarrow>
          matchFromHtml h
            (c\<lparr> html := keepStr (html c) (escapeHtml h s), cmp := keepStr (cmp c) (toUpperCase s) \<rparr>)
      | JNum n \<Rightarrow> if n \<noteq> NaN then scalarText h (num_toString n) c else badText c
      | JBool b \<Rightarrow> scalarText h (toStr h (JBool b)) c
      | _ \<Rightarrow> badText c)"

text \<open>The bad-value block: the first of the cell's, the column's and the table's
  \<^verbatim>\<open>htmlAlt\<close> that is a string, else the type name of the raw value.\<close>

definition isString :: "jsval option \<Rightarrow> bool" where
  "isString p = (hasProp p \<and> typeOf (getProp p) = ''String'')"

definition altHtml :: "options \<Rightarrow> column \<Rightarrow> cell \<Rightarrow> jsval" where
  "altHtml opts col c =
     (if isString (htmlAlt c) then getProp (htmlAlt c)
      else if isString (colHtmlAlt col) then getProp (colHtmlAlt col)
      else if isString (optHtmlAlt opts) then getProp (optHtmlAlt opts)
      else getProp (ctype c))"

definition badValue :: "host \<Rightarrow> options \<Rightarrow> column \<Rightarrow> cell \<Rightarrow> cell" where
  "badValue h opts col c =
     (if getProp (html c) = JUndefined then
        pushBadValue (c\<lparr> html := Some (altHtml opts col c),
          match := Some (JStr (toUpperCase (html2text h (toStr h (altHtml opts col c))))) \<rparr>)
      else c)"

text \<open>The cleansing block at the end.\<close>

definition cleanse :: "column \<Rightarrow> cell \<Rightarrow> cell" where
  "cleanse col c =
     (let c1 = (if type col = Some ''intrange'' \<or> type col = Some ''ip''
                then c\<lparr> cmp := None \<rparr>
                else c\<lparr> cmpMin := None, cmpMax := None \<rparr>)
      in if hasProp (cmask c1) \<and> type col \<noteq> Some ''ip'' then c1\<lparr> cmask := None \<rparr> else c1)"

text \<open>\<^verbatim>\<open>normalizeValue(row, column)\<close> on the entry \<^verbatim>\<open>row[column.key]\<close>: the cell object the
  entry holds afterwards, or the exception thrown.\<close>

definition normalizeValue :: "host \<Rightarrow> options \<Rightarrow> column \<Rightarrow> entry \<Rightarrow> string + cell" where
  "normalizeValue h opts col e =
     (let c0 = initCell h e;
          c1 = c0\<lparr> ctype := Some (JStr (typeOf (getProp (val c0)))) \<rparr>;
          c2 = c1\<lparr> cssClass := Some (value2array (cssClass c1)) \<rparr>;
          branch = (if type col = Some ''int'' then Inr (normInt h c2)
                    else if type col = Some ''intrange'' then Inr (normIntrange h c2)
                    else if type col = Some ''ip'' then Inr (normIp h c2)
                    else if type col = Some ''date'' then normDate h opts col c2
                    else if type col = Some ''version'' then Inr (normVersion h c2)
                    else Inr (normStr h c2))
      in case branch of
           Inl exn \<Rightarrow> Inl exn
         | Inr c3 \<Rightarrow> Inr (cleanse col (badValue h opts col c3)))"


section \<open>Filtering and sorting the display array (filtersort.js, filterData, sortData)\<close>

text \<open>The two token lists, longest token first (the sort of the host is stable). They
  are caches filled on first use from the immutable table; the model computes them.\<close>

definition byLengthDesc :: "string list \<Rightarrow> string list" where
  "byLengthDesc ts = sort_key (\<lambda>t. - int (length t)) ts"

definition wordOps :: "string list" where
  "wordOps = filter (\<lambda>t. case t of [] \<Rightarrow> False
       | c # cs \<Rightarrow> (65 \<le> code c \<and> code c \<le> 90) \<or> (97 \<le> code c \<and> code c \<le> 122)) (map fst op)"

definition nonWordOps :: "string list" where
  "nonWordOps = filter (\<lambda>t. t \<notin> set wordOps) (map fst op)"

definition wordTokensOf :: "column list \<Rightarrow> string list" where
  "wordTokensOf table = byLengthDesc (map key table @ wordOps)"

definition nonWordTokens :: "string list" where
  "nonWordTokens = byLengthDesc nonWordOps"

text \<open>\<^verbatim>\<open>filterData(filter)\<close>: the value returned and the display array afterwards.\<close>

definition filterData ::
  "host \<Rightarrow> column list \<Rightarrow> row list \<Rightarrow> nat list \<Rightarrow> string \<Rightarrow> answer \<times> nat list" where
  "filterData h table data display input =
     (if input = [] then (RFalse, display)
      else
        (case getTokens input (wordTokensOf table) nonWordTokens of
           None \<Rightarrow> (RDiverges, display)
         | Some tokens \<Rightarrow>
             if length tokens > 2 then
               (case tokensToRPN tokens of
                  None \<Rightarrow> (RDiverges, display)
                | Some filterRPN \<Rightarrow>
                    (case checkFilter h table filterRPN of
                       Inl e \<Rightarrow> (RError e, display)
                     | Inr rpn \<Rightarrow> runFilter h data rpn display))
             else (RFalse, display)))"

text \<open>The comparison callback of \<^verbatim>\<open>sortData\<close>; \<open>Inl\<close> is a TypeError.\<close>

definition sortCompare :: "host \<Rightarrow> row list \<Rightarrow> string \<Rightarrow> jsval \<Rightarrow> nat \<Rightarrow> nat \<Rightarrow> string + int" where
  "sortCompare h data colKey order a b =
     (case cellAt data (a AND 1048575) colKey of
        None \<Rightarrow> typeError
      | Some ca \<Rightarrow>
          (case cellAt data (b AND 1048575) colKey of
             None \<Rightarrow> typeError
           | Some cb \<Rightarrow>
               (let x = (if hasProp (cmpMin ca)
                         then (if truthy order then getProp (cmpMin ca) else getProp (cmpMax ca))
                         else getProp (cmp ca));
                    y = (if hasProp (cmpMin ca)
                         then (if truthy order then getProp (cmpMin cb) else getProp (cmpMax cb))
                         else getProp (cmp cb))
                in Inr (if truthy order
                        then (if js_lt h y x then 1 else if js_lt h x y then - 1 else 0)
                        else (if js_lt h x y then 1 else if js_lt h y x then - 1 else 0)))))"

text \<open>
  \<^verbatim>\<open>Array.prototype.sort\<close> is a stable sort whose algorithm the host chooses; the model
  sorts by insertion. An exception of the callback ends the sort.
\<close>

fun insertSorted :: "(nat \<Rightarrow> nat \<Rightarrow> string + int) \<Rightarrow> nat \<Rightarrow> nat list \<Rightarrow> string + nat list" where
  "insertSorted compare x [] = Inr [x]"
| "insertSorted compare x (y # ys) =
     (case compare x y of
        Inl exn \<Rightarrow> Inl exn
      | Inr r \<Rightarrow>
          if r \<le> 0 then Inr (x # y # ys)
          else (case insertSorted compare x ys of Inl exn \<Rightarrow> Inl exn | Inr zs \<Rightarrow> Inr (y # zs)))"

fun sortWith :: "(nat \<Rightarrow> nat \<Rightarrow> string + int) \<Rightarrow> nat list \<Rightarrow> string + nat list" where
  "sortWith compare [] = Inr []"
| "sortWith compare (x # xs) =
     (case sortWith compare xs of Inl exn \<Rightarrow> Inl exn | Inr ys \<Rightarrow> insertSorted compare x ys)"

definition sortData :: "host \<Rightarrow> row list \<Rightarrow> nat list \<Rightarrow> string \<Rightarrow> jsval \<Rightarrow> string + nat list" where
  "sortData h data display colKey order = sortWith (sortCompare h data colKey order) display"

section \<open>A host for evaluation\<close>

text \<open>
  To evaluate the model on concrete inputs, the host parameter needs a value.
  \<open>plainHost\<close> behaves as a browser does on plain inputs: decimal integer literals for
  the conversion to a number, text without markup for the DOM element (the three
  characters that serialisation escapes are escaped), patterns without metacharacters
  for regular expressions (a case-insensitive search for the pattern), dates written
  \<^verbatim>\<open>YYYY-MM-DD\<close> with an optional \<^verbatim>\<open>T12:00:00Z\<close>, and no moment.js. The theorems that name
  \<open>plainHost\<close> evaluate it on such inputs only; every other theorem holds for all hosts.
\<close>

definition plainToNumber :: "string \<Rightarrow> jsnum" where
  "plainToNumber s =
     (let t = trim s;
          body = (if take 1 t = ''-'' \<or> take 1 t = ''+'' then drop 1 t else t);
          sign = (\<lambda>n. if take 1 t = ''-'' then num_neg n else n)
      in if t = [] then Fin 0
         else if body = ''Infinity'' then sign PosInf
         else if body \<noteq> [] \<and> list_all isDigit body then sign (Fin (int (digitsVal 10 body)))
         else NaN)"

definition plainTextToHtml :: "string \<Rightarrow> string" where
  "plainTextToHtml s =
     concat (map (\<lambda>c. if c = CHR ''&'' then ''&amp;'' else if c = CHR ''<'' then ''&lt;''
                        else if c = CHR ''>'' then ''&gt;'' else [c]) s)"

fun isInfix :: "string \<Rightarrow> string \<Rightarrow> bool" where
  "isInfix p [] = (p = [])"
| "isInfix p (c # cs) = (take (length p) (c # cs) = p \<or> isInfix p cs)"

definition daysInMonth :: "int \<Rightarrow> int \<Rightarrow> int" where
  "daysInMonth y m =
     (if m = 2 then (if y mod 4 = 0 \<and> (y mod 100 \<noteq> 0 \<or> y mod 400 = 0) then 29 else 28)
      else if m = 4 \<or> m = 6 \<or> m = 9 \<or> m = 11 then 30 else 31)"

definition daysFromCivil :: "int \<Rightarrow> int \<Rightarrow> int \<Rightarrow> int" where
  "daysFromCivil y m d =
     (let y' = (if m \<le> 2 then y - 1 else y);
          era = y' div 400;
          yoe = y' mod 400;
          doy = (153 * (if m > 2 then m - 3 else m + 9) + 2) div 5 + d - 1;
          doe = yoe * 365 + yoe div 4 - yoe div 100 + doy
      in era * 146097 + doe - 719468)"

definition plainDateParse :: "string \<Rightarrow> jsnum" where
  "plainDateParse s =
     (let day = take 10 s; rest = drop 10 s;
          y = int (digitsVal 10 (take 4 day));
          m = int (digitsVal 10 (take 2 (drop 5 day)));
          d = int (digitsVal 10 (drop 8 day))
      in if isDateLiteral day \<and> (rest = [] \<or> rest = ''T12:00:00Z'')
            \<and> 1 \<le> m \<and> m \<le> 12 \<and> 1 \<le> d \<and> d \<le> daysInMonth y m
         then Fin (daysFromCivil y m d * 86400000 + (if rest = [] then 0 else 43200000))
         else NaN)"

definition pad2 :: "int \<Rightarrow> string" where
  "pad2 n = padStart 2 (CHR ''0'') (decimal (nat n))"

definition plainToISOString :: "int \<Rightarrow> string" where
  "plainToISOString t =
     (let days = t div 86400000; ms = t mod 86400000;
          z = days + 719468;
          era = z div 146097;
          doe = z mod 146097;
          yoe = (doe - doe div 1460 + doe div 36524 - doe div 146096) div 365;
          doy = doe - (365 * yoe + yoe div 4 - yoe div 100);
          mp = (5 * doy + 2) div 153;
          d = doy - (153 * mp + 2) div 5 + 1;
          m = (if mp < 10 then mp + 3 else mp - 9);
          y = yoe + era * 400 + (if m \<le> 2 then 1 else 0)
      in padStart 4 (CHR ''0'') (decimal (nat y)) @ ''-'' @ pad2 m @ ''-'' @ pad2 d @ ''T''
         @ pad2 (ms div 3600000) @ '':'' @ pad2 (ms div 60000 mod 60) @ '':''
         @ pad2 (ms div 1000 mod 60) @ ''.'' @ padStart 3 (CHR ''0'') (decimal (nat (ms mod 1000)))
         @ ''Z'')"

definition plainHost :: host where
  "plainHost = \<lparr>
     toNumber = plainToNumber,
     textToHtml = plainTextToHtml,
     htmlToText = (\<lambda>s. s),
     regexpValid = (\<lambda>p. True),
     regexpTest = (\<lambda>p s. isInfix (toUpperCase p) (toUpperCase s)),
     dateParse = plainDateParse,
     toISOString = plainToISOString,
     momentFormat = None,
     objectToString = (\<lambda>v. ''[object '' @ typeOf v @ '']'') \<rparr>"

section \<open>A sample table\<close>

text \<open>Columns, a row and options used where a property is evaluated on a concrete
  input.\<close>

definition nameColumn :: column where
  "nameColumn = \<lparr> key = ''name'', type = Some ''str'', colHtmlAlt = None, dateFormat = None \<rparr>"

definition idColumn :: column where
  "idColumn = \<lparr> key = ''id'', type = Some ''int'', colHtmlAlt = None, dateFormat = None \<rparr>"

definition ipColumn :: column where
  "ipColumn = \<lparr> key = ''src'', type = Some ''ip'', colHtmlAlt = None, dateFormat = None \<rparr>"


text \<open>A column whose declared type is none of the six known ones, and one with no
  declared type.\<close>

definition kindColumn :: column where
  "kindColumn = \<lparr> key = ''kind'', type = Some ''text'', colHtmlAlt = None, dateFormat = None \<rparr>"

definition noteColumn :: column where
  "noteColumn = \<lparr> key = ''note'', type = None, colHtmlAlt = None, dateFormat = None \<rparr>"

definition noOptions :: options where
  "noOptions = \<lparr> optHtmlAlt = None, optDateFormat = None \<rparr>"

definition quoted :: "string \<Rightarrow> string" where
  "quoted s = CHR 0x22 # s @ [CHR 0x22]"

text \<open>The cell that \<^verbatim>\<open>normalizeValue\<close> makes of the raw string \<^verbatim>\<open>abc\<close> in a string column.\<close>

definition abcCell :: cell where
  "abcCell = \<lparr> val = Some (JStr ''abc''), html = Some (JStr ''abc''), match = Some (JStr ''ABC''),
     cmp = Some (JStr ''ABC''), cmpMin = None, cmpMax = None, cmask = None,
     cssClass = Some (JArr []), htmlAlt = None, ctype = Some (JStr ''String'') \<rparr>"


definition zeroOptions :: options where
  "zeroOptions = \<lparr> optHtmlAlt = Some (JStr ''0''), optDateFormat = None \<rparr>"

text \<open>Three rows with a port range each, 80-443, 22 and 80-90, as \<^verbatim>\<open>normalizeValue\<close> leaves
  them.\<close>

definition portCell :: "string \<Rightarrow> int \<Rightarrow> int \<Rightarrow> cell" where
  "portCell text lo hi = \<lparr> val = Some (JStr text), html = Some (JStr text),
     match = Some (JStr text), cmp = None, cmpMin = Some (JNum (Fin lo)),
     cmpMax = Some (JNum (Fin hi)), cmask = None, cssClass = Some (JArr []), htmlAlt = None,
     ctype = Some (JStr ''String'') \<rparr>"

definition portData :: "row list" where
  "portData = [[(''port'', portCell ''80-443'' 80 443)], [(''port'', portCell ''22'' 22 22)],
               [(''port'', portCell ''80-90'' 80 90)]]"

section \<open>What the claims are stated with\<close>

text \<open>
  Claim C6 speaks of a literal that is parseable as an IPv4 dotted-quad address: four
  parts separated by dots, each a decimal number of one to three digits between 0 and
  255. This predicate follows the words of the claim, not the code.
\<close>

definition isOctet :: "string \<Rightarrow> bool" where
  "isOctet p = (p \<noteq> [] \<and> length p \<le> 3 \<and> list_all isDigit p \<and> digitsVal 10 p \<le> 255)"

definition isDottedQuad :: "string \<Rightarrow> bool" where
  "isDottedQuad s =
     (case split_dot s of
        [a, b, c, d] \<Rightarrow> isOctet a \<and> isOctet b \<and> isOctet c \<and> isOctet d
      | _ \<Rightarrow> False)"

text \<open>
  What the code accepts is wider than a dotted quad. \<open>isPart\<close> is a part of one to three
  decimal digits, with no bound on its value; \<open>numericQuad\<close> is a literal of four such
  parts. \<open>addr32\<close> is the 32-bit integer form of the address \<open>a.b.c.d\<close> in the words of the
  claim, \<open>a\<cdot>2\<^sup>2\<^sup>4 + b\<cdot>2\<^sup>1\<^sup>6 + c\<cdot>2\<^sup>8 + d\<close>, not the arithmetic of \<^verbatim>\<open>ip2long\<close>. \<open>decimalHost\<close> says of
  the host what every JavaScript engine does: the unary \<^verbatim>\<open>+\<close> reads a string of one to
  three decimal digits as the number it spells.
\<close>

definition isPart :: "string \<Rightarrow> bool" where
  "isPart p = (p \<noteq> [] \<and> length p \<le> 3 \<and> list_all isDigit p)"

definition numericQuad :: "string \<Rightarrow> bool" where
  "numericQuad s =
     (case split_dot s of
        [a, b, c, d] \<Rightarrow> isPart a \<and> isPart b \<and> isPart c \<and> isPart d
      | _ \<Rightarrow> False)"

definition addr32 :: "string \<Rightarrow> int" where
  "addr32 s =
     (case map (digitsVal 10) (split_dot s) of
        [a, b, c, d] \<Rightarrow> int a * 16777216 + int b * 65536 + int c * 256 + int d
      | _ \<Rightarrow> 0)"

definition decimalHost :: "host \<Rightarrow> bool" where
  "decimalHost h = (\<forall>p. isPart p \<longrightarrow> toNumber h p = Fin (int (digitsVal 10 p)))"

text \<open>
  Claim C8 speaks of columns whose cells carry the ranged representation. \<open>rowKey\<close> reads
  one bound of the cell that a display entry points to (the row index is the entry
  without its hidden bit); \<open>ranged\<close> says that every entry of the display array points to
  a cell with both bounds, each a number other than \<open>NaN\<close>, which is what
  \<^verbatim>\<open>normalizeValue\<close> leaves in a column of type \<^verbatim>\<open>intrange\<close> or \<^verbatim>\<open>ip\<close>.
\<close>

definition rowKey :: "row list \<Rightarrow> string \<Rightarrow> (cell \<Rightarrow> jsval option) \<Rightarrow> nat \<Rightarrow> jsnum option" where
  "rowKey data colKey bound e =
     (case cellAt data (e AND 1048575) colKey of
        None \<Rightarrow> None
      | Some c \<Rightarrow>
          (case bound c of
             Some (JNum n) \<Rightarrow> if n = NaN then None else Some n
           | _ \<Rightarrow> None))"

definition keyOf :: "row list \<Rightarrow> string \<Rightarrow> (cell \<Rightarrow> jsval option) \<Rightarrow> nat \<Rightarrow> jsnum" where
  "keyOf data colKey bound e = (case rowKey data colKey bound e of Some n \<Rightarrow> n | None \<Rightarrow> NaN)"

definition ranged :: "row list \<Rightarrow> string \<Rightarrow> nat list \<Rightarrow> bool" where
  "ranged data colKey display =
     list_all (\<lambda>e. rowKey data colKey cmpMin e \<noteq> None \<and> rowKey data colKey cmpMax e \<noteq> None) display"

text \<open>\<open>x\<close> is not greater than \<open>y\<close>.\<close>

definition num_le :: "jsnum \<Rightarrow> jsnum \<Rightarrow> bool" where
  "num_le x y = (\<not> num_lt y x)"

text \<open>The entries of \<open>sorted'\<close> with a given key are the entries of \<open>display\<close> with that key,
  in the order they had there.\<close>

definition stableBy :: "(nat \<Rightarrow> jsnum) \<Rightarrow> nat list \<Rightarrow> nat list \<Rightarrow> bool" where
  "stableBy k display sorted' = (\<forall>n. filter (\<lambda>e. k e = n) sorted' = filter (\<lambda>e. k e = n) display)"

text \<open>
  Claim C5 speaks of a second application of \<^verbatim>\<open>normalizeValue\<close>. \<open>givesValue\<close> says that the
  entry gives a raw value: it is a shorthand value, or a cell object that has a
  \<^verbatim>\<open>value\<close> property or a string \<^verbatim>\<open>html\<close> (from which the first application takes the
  value). \<open>tags\<close> is the set of the elements of the array \<^verbatim>\<open>cssClass\<close>.
\<close>

definition givesValue :: "entry \<Rightarrow> bool" where
  "givesValue e =
     (case e of
        Shorthand v \<Rightarrow> typeOf v \<noteq> ''Object''
      | CellObj c \<Rightarrow> hasProp (val c) \<or> isString (html c))"

definition tags :: "cell \<Rightarrow> jsval set" where
  "tags c = (case getProp (cssClass c) of JArr vs \<Rightarrow> set vs | _ \<Rightarrow> {})"

text \<open>\<open>again c c'\<close> is what a second pass may make (\<open>c'\<close>) of a normalised cell \<open>c\<close>: every
  property is the one it was, and the array \<^verbatim>\<open>cssClass\<close> is the one it was or has one more
  \<^verbatim>\<open>bad-value\<close> at its end, after one that is there already.\<close>

definition again :: "cell \<Rightarrow> cell \<Rightarrow> bool" where
  "again c c' =
     (val c' = val c \<and> html c' = html c \<and> match c' = match c \<and> cmp c' = cmp c
      \<and> cmpMin c' = cmpMin c \<and> cmpMax c' = cmpMax c \<and> cmask c' = cmask c
      \<and> htmlAlt c' = htmlAlt c \<and> ctype c' = ctype c
      \<and> (cssClass c' = cssClass c
         \<or> (\<exists>us. cssClass c = Some (JArr us) \<and> JStr ''bad-value'' \<in> set us
               \<and> cssClass c' = Some (JArr (us @ [JStr ''bad-value''])))))"

text \<open>Column keys that are identifiers: not empty, letters, digits and underscores
  only.\<close>

definition identifierKeys :: "column list \<Rightarrow> bool" where
  "identifierKeys table = (\<forall>c \<in> set table. key c \<noteq> [] \<and> list_all isWordChar (key c))"

section \<open>Properties of the version hash\<close>

lemmas hash_consts = groups_def padNum_def padAlph_def padChrLo_def padChrHi_def hl_def
  hlExt_def hlFull_def

lemmas hash_defs = version2hash_def hashFinish_def hashChar_def padStart_def padEnd_def
  repeat_def substring_def code_def Let_def

text \<open>
  The layout that the comment above \<^verbatim>\<open>version2hash\<close> documents has 44 characters: six
  groups of six, two characters for the suffix, six for the trailing number. The
  documented examples, as the comment gives them:
\<close>

definition documented_hash_1_13_7 :: string where
  "documented_hash_1_13_7 = ''     1    13     7                  ~~      ''"

definition documented_hash_1_13_7_rc12 :: string where
  "documented_hash_1_13_7_rc12 = ''     1    13     7                  rc    12''"

definition documented_hash_1_13_7_a_z3 :: string where
  "documented_hash_1_13_7_a_z3 = ''     1    13     7                  a~    z3''"

lemma version2hash_empty_length: "length (version2hash []) = 44"
  by (simp add: version2hash_def repeat_def hash_consts)

lemma version2hash_documented_examples:
  "version2hash ''1.13.7'' = documented_hash_1_13_7
   \<and> version2hash ''1.13.7-rc12'' = documented_hash_1_13_7_rc12"
  unfolding documented_hash_1_13_7_def documented_hash_1_13_7_rc12_def
  by code_simp

lemma version2hash_order_examples:
  "str_lt (version2hash ''1.2.3'') (version2hash ''1.13.0'')
   \<and> str_lt (version2hash ''1.13.7-rc1'') (version2hash ''1.13.7'')
   \<and> str_lt (version2hash ''1.13.7-rc12'') (version2hash ''1.13.7'')
   \<and> str_lt (version2hash ''1.13.7-a-z3'') (version2hash ''1.13.7'')"
  by code_simp

text \<open>
  Claim C3 (every input hashes to exactly 44 characters) fails on the code. When the
  dash suffix has no trailing number, the suffix is still in \<open>group\<close> when the loop
  ends and is written into the six-character number region, and the two-character
  suffix region is never written: 36 + 6 = 42 characters. With six dotted groups and
  no dash, the sixth group is written twice and the suffix region is skipped: 42
  characters again. A lone dash gives 42 as well.
\<close>

theorem version2hash_length_not_44:
  "version2hash ''1.13.7-rc'' = ''     1    13     7                      rc''
   \<and> length (version2hash ''1.13.7-rc'') = 42
   \<and> version2hash ''1.2.3.4.5.6'' = ''     1     2     3     4     5     6     6''
   \<and> length (version2hash ''1.2.3.4.5.6'') = 42
   \<and> length (version2hash ''-'') = 42"
  by code_simp

text \<open>
  Claim C4 (the two orderings, consistent with the documented literal hashes of 1.13.7,
  1.13.7-rc12 and 1.13.7-a-z3). The orderings hold and the first two literals are
  reproduced (\<open>version2hash_order_examples\<close>, \<open>version2hash_documented_examples\<close>).
  The third literal is not what the code returns: the suffix phase ends only at the
  first digit, so the suffix collected for \<^verbatim>\<open>a-z3\<close> is \<^verbatim>\<open>a-z\<close>, cut to \<^verbatim>\<open>a-\<close>, and the
  trailing number is \<^verbatim>\<open>3\<close>.
\<close>

theorem version2hash_a_z3_differs_from_documented:
  "version2hash ''1.13.7-a-z3'' = ''     1    13     7                  a-     3''
   \<and> version2hash ''1.13.7-a-z3'' \<noteq> documented_hash_1_13_7_a_z3"
  unfolding documented_hash_1_13_7_a_z3_def
  by code_simp


section \<open>Properties of characters and tokens\<close>

lemma code_char_of: "n < 256 \<Longrightarrow> code (char_of n) = n"
  by (simp add: code_def)

lemma code_lt_256: "code c < 256"
  by (simp add: code_def)

lemma isWordChar_upperChar: "isWordChar (upperChar c) = isWordChar c"
proof (cases "97 \<le> code c \<and> code c \<le> 122")
  case True
  have "code c - 32 < 256" using code_lt_256 [of c] by arith
  with True have "code (upperChar c) = code c - 32"
    by (simp add: upperChar_def code_char_of)
  with True show ?thesis
    by (auto simp: isWordChar_def isDigit_def)
next
  case False
  then show ?thesis by (auto simp: upperChar_def)
qed

lemma toUpperCase_word:
  assumes "toUpperCase a = toUpperCase b"
  shows "list_all isWordChar a = list_all isWordChar b"
proof -
  from assms have "list_all isWordChar (toUpperCase a) = list_all isWordChar (toUpperCase b)"
    by simp
  then show ?thesis
    by (simp add: toUpperCase_def list_all_iff isWordChar_upperChar)
qed

lemma wordOps_eq: "wordOps = [''AND'', ''OR'']"
  by code_simp

lemma nonWordTokens_eq:
  "nonWordTokens = [''=='', ''!='', ''!~'', ''@='', ''='', ''~'', ''<'', ''>'']"
  by code_simp

lemma set_wordTokensOf: "set (wordTokensOf table) = key ` set table \<union> {''AND'', ''OR''}"
  by (auto simp: wordTokensOf_def byLengthDesc_def wordOps_eq)

lemma wordTokensOf_nonempty: "wordTokensOf table \<noteq> []"
proof -
  have "''AND'' \<in> set (wordTokensOf table)" by (simp add: set_wordTokensOf)
  then show ?thesis by auto
qed

lemma wordTokensOf_identifiers:
  assumes "identifierKeys table"
  shows "\<forall>t \<in> set (wordTokensOf table). t \<noteq> [] \<and> list_all isWordChar t"
proof -
  have "list_all isWordChar ''AND''" "list_all isWordChar ''OR''" by code_simp+
  with assms show ?thesis
    by (auto simp: set_wordTokensOf identifierKeys_def)
qed

lemma firstWord_step:
  "toUpperCase (take (length t) s) = toUpperCase t \<Longrightarrow>
   firstWord (t # W) s =
     (case trailingSpace (if t = [] then None else Some (s ! (length t - 1))) (drop (length t) s) of
        Some k \<Rightarrow> Some (length t + k)
      | None \<Rightarrow> firstWord W s)"
  by simp

section \<open>The filter \<^verbatim>\<open>foo = 1\<close>\<close>

lemma trailingSpace_foo:
  "trailingSpace (Some (CHR ''f'')) ''oo = 1'' = None"
  "trailingSpace (Some (CHR ''o'')) ''o = 1'' = None"
  "trailingSpace (Some (CHR ''o'')) '' = 1'' = Some 0"
  by code_simp+

text \<open>Whatever the identifiers among the word tokens are, the word pattern matches
  \<^verbatim>\<open>foo\<close> at the start of \<^verbatim>\<open>foo = 1\<close> (a key that is \<^verbatim>\<open>foo\<close> in another case) or
  nothing.\<close>

lemma firstWord_foo:
  assumes "\<forall>t \<in> set W. t \<noteq> [] \<and> list_all isWordChar t"
  shows "firstWord W ''foo = 1'' = None \<or> firstWord W ''foo = 1'' = Some 3"
  using assms
proof (induction W)
  case Nil
  then show ?case by simp
next
  case (Cons t W)
  then have IH: "firstWord W ''foo = 1'' = None \<or> firstWord W ''foo = 1'' = Some 3" by simp
  from Cons.prems have t: "t \<noteq> []" "list_all isWordChar t" by simp_all
  show ?case
  proof (cases "toUpperCase (take (length t) ''foo = 1'') = toUpperCase t")
    case False
    with IH show ?thesis by simp
  next
    case True
    then have w: "list_all isWordChar (take (length t) ''foo = 1'')"
      using t toUpperCase_word by blast
    have "length t \<le> 3"
    proof (rule ccontr)
      assume "\<not> length t \<le> 3"
      then obtain n where "length t = Suc (Suc (Suc (Suc n)))"
        by (metis Suc_le_eq not_less_eq_eq numeral_3_eq_3 less_imp_Suc_add add_Suc)
      with w show False by (simp add: isWordChar_def isDigit_def code_def)
    qed
    moreover from t have "length t \<noteq> 0" by simp
    ultimately consider "length t = 1" | "length t = 2" | "length t = 3"
      by arith
    then show ?thesis
    proof cases
      case 1
      with t IH show ?thesis
        unfolding firstWord_step [OF True] by (simp add: trailingSpace_foo)
    next
      case 2
      with t IH show ?thesis
        unfolding firstWord_step [OF True] by (simp add: trailingSpace_foo)
    next
      case 3
      with t IH show ?thesis
        unfolding firstWord_step [OF True] by (simp add: trailingSpace_foo)
    qed
  qed
qed

lemma firstWord_1:
  assumes "\<forall>t \<in> set W. t \<noteq> [] \<and> list_all isWordChar t"
  shows "firstWord W ''1'' = None \<or> firstWord W ''1'' = Some 1"
  using assms
proof (induction W)
  case Nil
  then show ?case by simp
next
  case (Cons t W)
  then have IH: "firstWord W ''1'' = None \<or> firstWord W ''1'' = Some 1" by simp
  from Cons.prems have t: "t \<noteq> []" by simp
  show ?case
  proof (cases "toUpperCase (take (length t) ''1'') = toUpperCase t")
    case False
    with IH show ?thesis by simp
  next
    case True
    then have "length (toUpperCase (take (length t) ''1'')) = length (toUpperCase t)" by simp
    then have "min (length t) 1 = length t" by (simp add: toUpperCase_def)
    with t have len: "length t = 1" by (cases t) auto
    have "trailingSpace (Some (CHR ''1'')) [] = Some 0" by code_simp
    with len t IH show ?thesis
      unfolding firstWord_step [OF True] by simp
  qed
qed

lemma matchNonWords_foo:
  "matchNonWords nonWordTokens ''foo = 1'' = None"
  "matchNonWords nonWordTokens '' = 1'' = Some 3"
  "matchNonWords nonWordTokens ''1'' = None"
  by code_simp+

lemma matchUnquoted_foo:
  "matchUnquoted ''foo = 1'' = Some 3"
  "matchUnquoted ''1'' = Some 1"
  by code_simp+

lemma nextToken_foo:
  assumes "\<forall>t \<in> set W. t \<noteq> [] \<and> list_all isWordChar t"
  shows "nextToken W nonWordTokens ''foo = 1'' = 3"
    and "nextToken W nonWordTokens '' = 1'' = 3"
    and "nextToken W nonWordTokens ''1'' = 1"
proof -
  have "isWordChar (CHR ''f'')" "isWordChar (CHR ''1'')" by code_simp+
  then show "nextToken W nonWordTokens ''foo = 1'' = 3" "nextToken W nonWordTokens ''1'' = 1"
    using firstWord_foo [OF assms] firstWord_1 [OF assms]
    by (auto simp: nextToken_def matchNonWords_foo matchUnquoted_foo matchWords_def)
  show "nextToken W nonWordTokens '' = 1'' = 3"
    by (simp add: nextToken_def matchNonWords_foo)
qed

lemma trim_foo: "trim ''foo'' = ''foo''" "trim '' = '' = ''=''" "trim ''1'' = ''1''"
  by code_simp+

lemma scanTokens_foo:
  assumes "\<forall>t \<in> set W. t \<noteq> [] \<and> list_all isWordChar t"
  shows "scanTokens W nonWordTokens ''foo = 1'' = Some [''foo'', ''='', ''1'']"
proof -
  have e: "scanTokens W nonWordTokens [] = Some []"
    by (simp add: scanTokens.simps)
  have "scanTokens W nonWordTokens ''1'' = Some [''1'']"
    by (subst scanTokens.simps) (simp add: nextToken_foo [OF assms] e trim_foo)
  then have "scanTokens W nonWordTokens '' = 1'' = Some [''='', ''1'']"
    by (subst scanTokens.simps) (simp add: nextToken_foo [OF assms] trim_foo)
  then show ?thesis
    by (subst scanTokens.simps) (simp add: nextToken_foo [OF assms] trim_foo)
qed

lemma getTokens_foo:
  assumes "identifierKeys table"
  shows "getTokens ''foo = 1'' (wordTokensOf table) nonWordTokens = Some [''foo'', ''='', ''1'']"
proof -
  have "nonWordTokens \<noteq> []" by (simp add: nonWordTokens_eq)
  then show ?thesis
    by (simp add: getTokens_def wordTokensOf_nonempty
        scanTokens_foo [OF wordTokensOf_identifiers [OF assms]])
qed

lemma typeMap_foldl_other:
  "k \<notin> key ` set table \<Longrightarrow>
   foldl (\<lambda>m c. if key c = ''__proto__'' then m else m(key c \<mapsto> typeOrStr (type c))) m0 table k = m0 k"
  by (induction table arbitrary: m0) auto

lemma typeMap_undeclared: "k \<notin> key ` set table \<Longrightarrow> typeMap table k = None"
  by (simp add: typeMap_def typeMap_foldl_other)

lemma tokensToRPN_foo: "tokensToRPN [''foo'', ''='', ''1''] = Some [''foo'', ''1'', ''='']"
  by code_simp

lemma isOp_foo: "isOp ''foo'' = False" "isOp ''1'' = False" "isOp ''='' = True"
  by code_simp+

lemma checkFilter_undeclared:
  assumes "typeMap table ''foo'' = None"
  shows "checkFilter h table [''foo'', ''1'', ''=''] = Inl ''Invalid field name: foo''"
  using assms by (simp add: checkFilter_def isOp_foo checkOperator_def)

text \<open>
  Claim C7. For a table whose keys are identifiers and do not include \<^verbatim>\<open>foo\<close>, the filter
  \<^verbatim>\<open>foo = 1\<close> returns the message \<^verbatim>\<open>Invalid field name: foo\<close> and the
  display array is the one it was, entry by entry (row index and hidden bit): the
  validator fails and the row evaluator is not run, whatever the rows and the host are.
\<close>

theorem filterData_unknown_field:
  assumes "identifierKeys table" and "''foo'' \<notin> key ` set table"
  shows "filterData h table data display ''foo = 1'' = (RError ''Invalid field name: foo'', display)"
  by (simp add: filterData_def getTokens_foo [OF assms(1)] tokensToRPN_foo
      checkFilter_undeclared [OF typeMap_undeclared [OF assms(2)]])

theorem filterData_unknown_field_witness:
  "identifierKeys [nameColumn, ipColumn] \<and> ''foo'' \<notin> key ` set [nameColumn, ipColumn]
   \<and> filterData plainHost [nameColumn, ipColumn] [[(''name'', abcCell)], [(''name'', abcCell)]]
        [1048577, 0] ''foo = 1''
       = (RError ''Invalid field name: foo'', [1048577, 0])"
proof -
  have a: "identifierKeys [nameColumn, ipColumn]" by code_simp
  have b: "''foo'' \<notin> key ` set [nameColumn, ipColumn]"
    by (simp add: nameColumn_def ipColumn_def)
  from a b filterData_unknown_field [OF a b] show ?thesis by simp
qed

section \<open>Filters of fewer than three tokens\<close>

text \<open>
  Claim C9. When the filter string is empty, or the tokenizer returns fewer than three
  tokens for it, \<^verbatim>\<open>filterData\<close> returns \<^verbatim>\<open>false\<close> and the display array is unchanged.
  The parser, the validator and the row evaluator are not run: the result does not
  depend on the rows or the host, and it is \<^verbatim>\<open>false\<close> also where the parser would not
  return (\<open>filterData_lone_parenthesis\<close>).
\<close>

theorem filterData_short_filter:
  assumes "input = [] \<or> (\<exists>tokens. getTokens input (wordTokensOf table) nonWordTokens = Some tokens
                                  \<and> length tokens < 3)"
  shows "filterData h table data display input = (RFalse, display)"
  using assms by (auto simp: filterData_def)

theorem filterData_short_filter_witness:
  "getTokens ''name ='' (wordTokensOf [nameColumn]) nonWordTokens = Some [''name'', ''='']
   \<and> filterData plainHost [nameColumn] [[(''name'', abcCell)]] [1048576] ''name ='' = (RFalse, [1048576])"
proof -
  have g: "getTokens ''name ='' (wordTokensOf [nameColumn]) nonWordTokens = Some [''name'', ''='']"
    by code_simp
  then have "''name ='' = [] \<or> (\<exists>tokens. getTokens ''name ='' (wordTokensOf [nameColumn]) nonWordTokens
      = Some tokens \<and> length tokens < 3)"
    by simp
  from g filterData_short_filter [OF this] show ?thesis by simp
qed

lemma getTokens_lone_parenthesis:
  "getTokens '')'' (wordTokensOf [nameColumn]) nonWordTokens = Some ['')'']"
  by code_simp

lemma tokensToRPN_lone_parenthesis: "tokensToRPN ['')''] = None"
  by code_simp

lemma filterData_lone_parenthesis:
  "filterData h [nameColumn] data display '')'' = (RFalse, display)"
  by (simp add: filterData_def getTokens_lone_parenthesis)

section \<open>The right operand of an ordering operator on an \<^verbatim>\<open>ip\<close> field\<close>

text \<open>
  Claim C6 as stated (the validator fails with the message \<^verbatim>\<open>Bad IP address\<close> exactly when
  the literal is not a dotted quad) is false in both directions: the dotted quad
  \<^verbatim>\<open>0.0.0.0\<close> is refused, because \<^verbatim>\<open>ip2long\<close> returns 0 for it and 0 is also what it
  returns for a string it cannot split into four parts; and \<^verbatim>\<open>1.2.3.999\<close>, which is no
  dotted quad, is accepted, because the parts are not checked against 255.
\<close>

theorem ip_literal_0_0_0_0_refused:
  "isDottedQuad ''0.0.0.0''
   \<and> checkFilter plainHost [ipColumn] [''src'', ''0.0.0.0'', ''<''] = Inl ''Bad IP address: 0.0.0.0''"
  by code_simp

lemma ip_literal_out_of_range_accepted:
  "\<not> isDottedQuad ''1.2.3.999''
   \<and> checkFilter plainHost [ipColumn] [''src'', ''1.2.3.999'', ''>'']
       = Inr [JStr ''src'', JNum (Fin 16910055), JStr ''>'']"
  by code_simp

text \<open>
  What \<^verbatim>\<open>ip2long\<close> makes of a literal, by its shape: 0 when the literal does not split at
  the dots into exactly four parts; the number \<open>addr32\<close> when the four parts are of one to
  three decimal digits each, on a host that reads such parts as decimal numbers. That
  number is below \<open>2\<^sup>3\<^sup>2\<close> for a dotted quad, and 0 only for the address 0; it is not 0
  when a part is above 255.
\<close>

lemma ip2long_parts:
  assumes "length (split_dot s) \<noteq> 4"
  shows "ip2long h s = Fin 0"
  using assms by (auto simp: ip2long_def split: list.splits)

lemma numericQuad_parts:
  assumes "numericQuad s"
  obtains a b c d where "split_dot s = [a, b, c, d]" "isPart a" "isPart b" "isPart c" "isPart d"
  using assms by (auto simp: numericQuad_def split: list.splits)

lemma ip2long_numericQuad:
  assumes "decimalHost h" and "numericQuad s"
  shows "ip2long h s = Fin (addr32 s)"
proof -
  from assms(2) obtain a b c d
    where s: "split_dot s = [a, b, c, d]" and p: "isPart a" "isPart b" "isPart c" "isPart d"
    by (rule numericQuad_parts)
  from assms(1) p have "toNumber h a = Fin (int (digitsVal 10 a))"
    "toNumber h b = Fin (int (digitsVal 10 b))" "toNumber h c = Fin (int (digitsVal 10 c))"
    "toNumber h d = Fin (int (digitsVal 10 d))"
    by (simp_all add: decimalHost_def)
  then show ?thesis by (simp add: ip2long_def addr32_def s)
qed

lemma isOctet_isPart: "isOctet p \<Longrightarrow> isPart p"
  by (simp add: isOctet_def isPart_def)

lemma isDottedQuad_numericQuad: "isDottedQuad s \<Longrightarrow> numericQuad s"
  by (auto simp: isDottedQuad_def numericQuad_def isOctet_isPart split: list.splits)

lemma addr32_dotted_quad:
  assumes "isDottedQuad s"
  shows "0 \<le> addr32 s" and "addr32 s < 4294967296"
    and "addr32 s = 0 \<longleftrightarrow> map (digitsVal 10) (split_dot s) = [0, 0, 0, 0]"
  using assms by (auto simp: isDottedQuad_def addr32_def isOctet_def split: list.splits)

lemma addr32_out_of_range:
  assumes "numericQuad s" and "\<not> isDottedQuad s"
  shows "addr32 s \<noteq> 0"
  using assms
  by (auto simp: isDottedQuad_def numericQuad_def addr32_def isOctet_def isPart_def
      split: list.splits)

lemma numericQuad_length: "numericQuad s \<Longrightarrow> length (split_dot s) = 4"
  by (auto simp: numericQuad_def split: list.splits)

text \<open>\<open>plainHost\<close> is such a host.\<close>

lemma trim_digits:
  assumes "list_all isDigit p"
  shows "trim p = p"
proof (cases "p = []")
  case True
  then show ?thesis by (simp add: trim_def)
next
  case False
  have d: "\<not> isSpace c" if "isDigit c" for c
    using that by (auto simp: isSpace_def isDigit_def)
  from False assms have "\<not> isSpace (hd p)" "\<not> isSpace (last p)"
    by (auto simp: list_all_iff intro!: d)
  with False have "dropWhile isSpace p = p" "dropWhile isSpace (rev p) = rev p"
    by (simp_all add: dropWhile_eq_self_iff hd_rev)
  then show ?thesis by (simp add: trim_def)
qed

lemma decimalHost_plainHost: "decimalHost plainHost"
proof -
  have "plainToNumber p = Fin (int (digitsVal 10 p))" if "isPart p" for p
  proof -
    from that have p: "p \<noteq> []" "length p \<le> 3" "list_all isDigit p"
      by (simp_all add: isPart_def)
    from p have "isDigit (hd p)" by (cases p) simp_all
    then have "hd p \<noteq> CHR ''-''" "hd p \<noteq> CHR ''+''" by (auto simp: isDigit_def code_def)
    with p(1) have s: "take 1 p \<noteq> ''-''" "take 1 p \<noteq> ''+''" by (cases p; simp)+
    from p(2) have i: "p \<noteq> ''Infinity''" by auto
    from s i p show ?thesis
      by (simp add: plainToNumber_def Let_def trim_digits [OF p(3)])
  qed
  then show ?thesis by (simp add: decimalHost_def plainHost_def)
qed

text \<open>
  Claim C6, amended. For every host that reads decimal parts, every stack and array: when
  the operator is \<^verbatim>\<open><\<close> or \<^verbatim>\<open>>\<close> and the left operand is a field of type \<^verbatim>\<open>ip\<close>, the
  validator, on the right-hand literal without its quotes,
  \<^item> stops with \<^verbatim>\<open>Bad IP address\<close> when the literal does not split at the dots into exactly
    four parts;
  \<^item> when the literal is a dotted quad, stops with \<^verbatim>\<open>Bad IP address\<close> if the address is 0
    (as for \<^verbatim>\<open>0.0.0.0\<close>), and otherwise writes the 32-bit integer form of the address over
    the literal in the array and goes on with a placeholder on the stack;
  \<^item> when the four parts are of one to three decimal digits and one is above 255, does
    not stop: it writes \<open>a\<cdot>2\<^sup>2\<^sup>4 + b\<cdot>2\<^sup>1\<^sup>6 + c\<cdot>2\<^sup>8 + d\<close> over the literal;
  \<^item> for any other literal of four parts, stops exactly when \<^verbatim>\<open>ip2long\<close> of it is 0 or
    \<open>NaN\<close>, which depends on what the host's \<^verbatim>\<open>+\<close> makes of the parts, and otherwise writes
    the number \<^verbatim>\<open>ip2long\<close> returns.
\<close>

theorem checkTokens_ip_ordering:
  assumes "token = ''<'' \<or> token = ''>''" and "tm (fst left) = Some ''ip''"
    and "decimalHost h"
  shows "checkTokens h tm i (token # ts) (right # left # rest) rpn =
     (let lit = unquote (fst right);
          rpn1 = (if isQuoted (fst right) then setToken rpn (snd right) (JStr lit) else rpn);
          refused = Inl (''Bad IP address: '' @ lit);
          accepted = (\<lambda>v. checkTokens h tm (Suc i) ts (placeholder # rest)
                             (setToken rpn1 (snd right) (JNum v)))
      in if length (split_dot lit) \<noteq> 4 then refused
         else if isDottedQuad lit
           then (if addr32 lit = 0 then refused else accepted (Fin (addr32 lit)))
         else if numericQuad lit then accepted (Fin (addr32 lit))
         else if num_truthy (ip2long h lit) then accepted (ip2long h lit)
         else refused)"
proof -
  define lit where "lit = unquote (fst right)"
  have code: "checkTokens h tm i (token # ts) (right # left # rest) rpn =
     (if num_truthy (ip2long h lit)
      then checkTokens h tm (Suc i) ts (placeholder # rest)
             (setToken (if isQuoted (fst right) then setToken rpn (snd right) (JStr lit) else rpn)
                (snd right) (JNum (ip2long h lit)))
      else Inl (''Bad IP address: '' @ lit))"
    using assms(1,2)
    by (auto simp: isOp_def op_def checkOperator_def convertOrdered_def convertIp_def
        typeOrStr_def Let_def lit_def)
  consider (parts) "length (split_dot lit) \<noteq> 4"
    | (quad) "length (split_dot lit) = 4" "isDottedQuad lit"
    | (large) "length (split_dot lit) = 4" "\<not> isDottedQuad lit" "numericQuad lit"
    | (other) "length (split_dot lit) = 4" "\<not> isDottedQuad lit" "\<not> numericQuad lit"
    by blast
  then show ?thesis
  proof cases
    case parts
    then show ?thesis
      unfolding code Let_def lit_def [symmetric]
      by (simp add: ip2long_parts num_truthy_def)
  next
    case quad
    from ip2long_numericQuad [OF assms(3) isDottedQuad_numericQuad [OF quad(2)]] quad
    show ?thesis
      unfolding code Let_def lit_def [symmetric] by (simp add: num_truthy_def)
  next
    case large
    from ip2long_numericQuad [OF assms(3) large(3)] addr32_out_of_range [OF large(3,2)] large
    show ?thesis
      unfolding code Let_def lit_def [symmetric] by (simp add: num_truthy_def)
  next
    case other
    then show ?thesis
      unfolding code Let_def lit_def [symmetric] by simp
  qed
qed

lemma typeMap_ipColumn: "typeMap [ipColumn] ''src'' = Some ''ip''"
  by code_simp

lemma ip2long_10_1_2_3: "ip2long plainHost ''10.1.2.3'' = Fin 167838211"
  by code_simp

lemma literal_10_1_2_3:
  "unquote ''10.1.2.3'' = ''10.1.2.3''" "isQuoted ''10.1.2.3'' = False"
  "length (split_dot ''10.1.2.3'') = 4" "isDottedQuad ''10.1.2.3''"
  "addr32 ''10.1.2.3'' = 167838211"
  by code_simp+

theorem checkTokens_ip_ordering_witness:
  "(''<'' = ''<'' \<or> ''<'' = ''>'') \<and> typeMap [ipColumn] (fst (''src'', 0 :: int)) = Some ''ip''
   \<and> decimalHost plainHost
   \<and> checkTokens plainHost (typeMap [ipColumn]) 2 [''<''] [(''10.1.2.3'', 1), (''src'', 0)]
        [JStr ''src'', JStr ''10.1.2.3'', JStr ''<'']
       = Inr ([placeholder], [JStr ''src'', JNum (Fin 167838211), JStr ''<''])"
proof -
  have a: "''<'' = ''<'' \<or> ''<'' = ''>''" by simp
  have b: "typeMap [ipColumn] (fst (''src'', 0 :: int)) = Some ''ip''"
    by (simp add: typeMap_ipColumn)
  from checkTokens_ip_ordering [where token = "''<''" and tm = "typeMap [ipColumn]"
      and left = "(''src'', 0)" and h = plainHost and i = 2 and ts = "[]"
      and right = "(''10.1.2.3'', 1)" and rest = "[]"
      and rpn = "[JStr ''src'', JStr ''10.1.2.3'', JStr ''<'']", OF a b decimalHost_plainHost]
  show ?thesis
    by (simp add: typeMap_ipColumn literal_10_1_2_3 decimalHost_plainHost setToken_def)
qed

text \<open>Two literals of four parts of the last kind: the first is accepted and rewritten to
  \<open>Infinity\<close>, the second is refused (\<open>Infinity\<cdot>256 - Infinity\<close> is \<open>NaN\<close>).\<close>

lemma ip_literal_infinity:
  "checkFilter plainHost [ipColumn] [''src'', ''Infinity.0.0.0'', ''<'']
     = Inr [JStr ''src'', JNum PosInf, JStr ''<'']"
  "checkFilter plainHost [ipColumn] [''src'', ''Infinity.-Infinity.0.0'', ''<'']
     = Inl ''Bad IP address: Infinity.-Infinity.0.0''"
  by code_simp+

section \<open>A column of unknown type\<close>

text \<open>
  Claim C10 (a column whose type is missing or unknown is treated as \<^verbatim>\<open>str\<close> by the
  normalizer and by the validator alike). The normalizer does so
  (\<open>normalizeValue_unknown_type\<close>), and the validator does so for a missing type
  (\<open>typeMap_missing_type\<close>, \<open>checkFilter_missing_type\<close>). For a type that is present but
  unknown, \<^verbatim>\<open>column.type || "str"\<close> keeps the unknown name in the type map, no branch
  of the \<^verbatim>\<open><\<close>/\<^verbatim>\<open>>\<close> conversion matches it, and the literal stays as typed.
\<close>

lemma normalizeValue_abc:
  "normalizeValue plainHost noOptions nameColumn (Shorthand (JStr ''abc'')) = Inr abcCell"
  "normalizeValue plainHost noOptions kindColumn (Shorthand (JStr ''abc'')) = Inr abcCell"
  "normalizeValue plainHost noOptions noteColumn (Shorthand (JStr ''abc'')) = Inr abcCell"
  by code_simp+

lemma normalizeValue_unknown_type:
  assumes "type col \<notin> {Some ''int'', Some ''intrange'', Some ''ip'', Some ''date'', Some ''version''}"
  shows "normalizeValue h opts col e = normalizeValue h opts (col\<lparr> type := Some ''str'' \<rparr>) e"
  using assms by (simp add: normalizeValue_def cleanse_def badValue_def altHtml_def Let_def)

lemma typeMap_missing_type: "typeMap [noteColumn] ''note'' = Some ''str''"
  by code_simp

lemma checkFilter_missing_type:
  "checkFilter plainHost [noteColumn] [''note'', ''abc'', ''<'']
     = Inr [JStr ''note'', JStr ''ABC'', JStr ''<'']"
  by code_simp

theorem unknown_type_not_treated_as_str:
  "typeMap [kindColumn] ''kind'' = Some ''text''
   \<and> checkFilter plainHost [kindColumn] [''kind'', ''abc'', ''<'']
       = Inr [JStr ''kind'', JStr ''abc'', JStr ''<'']
   \<and> checkFilter plainHost [nameColumn] [''name'', ''abc'', ''<'']
       = Inr [JStr ''name'', JStr ''ABC'', JStr ''<'']
   \<and> normalizeValue plainHost noOptions kindColumn (Shorthand (JStr ''abc''))
       = normalizeValue plainHost noOptions nameColumn (Shorthand (JStr ''abc''))"
  by code_simp

lemma evalRow_unknown_type:
  "evalRow plainHost [[(''kind'', abcCell)]] 0 [JStr ''kind'', JStr ''abc'', JStr ''<''] [] = Inr [JBool True]"
  "evalRow plainHost [[(''name'', abcCell)]] 0 [JStr ''name'', JStr ''ABC'', JStr ''<''] [] = Inr [JBool False]"
  by code_simp+

lemma runFilter_unknown_type:
  "runFilter plainHost [[(''kind'', abcCell)]] [JStr ''kind'', JStr ''abc'', JStr ''<''] [0] = (RTrue, [0])"
  "runFilter plainHost [[(''name'', abcCell)]] [JStr ''name'', JStr ''ABC'', JStr ''<''] [0] = (RTrue, [1048576])"
  by (simp_all add: evalRow_unknown_type del: evalRow.simps)

lemma getTokens_kind_lt_abc:
  "getTokens ''kind < abc'' (wordTokensOf [kindColumn]) nonWordTokens = Some [''kind'', ''<'', ''abc'']"
  "getTokens ''name < abc'' (wordTokensOf [nameColumn]) nonWordTokens = Some [''name'', ''<'', ''abc'']"
  by code_simp+

lemma tokensToRPN_kind_lt_abc:
  "tokensToRPN [''kind'', ''<'', ''abc''] = Some [''kind'', ''abc'', ''<'']"
  "tokensToRPN [''name'', ''<'', ''abc''] = Some [''name'', ''abc'', ''<'']"
  by code_simp+

lemma checkFilter_kind_lt_abc:
  "checkFilter plainHost [kindColumn] [''kind'', ''abc'', ''<''] = Inr [JStr ''kind'', JStr ''abc'', JStr ''<'']"
  "checkFilter plainHost [nameColumn] [''name'', ''abc'', ''<''] = Inr [JStr ''name'', JStr ''ABC'', JStr ''<'']"
  by code_simp+

text \<open>The same row, holding the same normalised cell, passes the filter \<^verbatim>\<open>< abc\<close> when the
  column type is unknown and fails it when the type is \<^verbatim>\<open>str\<close>.\<close>

lemma filterData_unknown_type:
  "filterData plainHost [kindColumn] [[(''kind'', abcCell)]] [0] ''kind < abc'' = (RTrue, [0])"
  "filterData plainHost [nameColumn] [[(''name'', abcCell)]] [0] ''name < abc'' = (RTrue, [1048576])"
  by (simp_all add: filterData_def getTokens_kind_lt_abc tokensToRPN_kind_lt_abc
      checkFilter_kind_lt_abc runFilter_unknown_type del: runFilter.simps)

section \<open>A numeric string in an \<^verbatim>\<open>int\<close> column\<close>

lemma normInt_numeric_string:
  assumes "val c = Some (JStr s)" and "toNumber h s \<noteq> NaN"
  shows "match (normInt h c) = Some (JNum (parseInt s))"
  using assms by (simp add: normInt_def getProp_def isNaN_def toNum_def)

theorem int_column_numeric_string_match_is_number:
  "normalizeValue plainHost noOptions idColumn (Shorthand (JStr ''42''))
     = Inr \<lparr> val = Some (JStr ''42''), html = Some (JStr ''42''), match = Some (JNum (Fin 42)),
             cmp = Some (JNum (Fin 42)), cmpMin = None, cmpMax = None, cmask = None,
             cssClass = Some (JArr []), htmlAlt = None, ctype = Some (JStr ''String'') \<rparr>
   \<and> typeOf (JNum (Fin 42)) \<noteq> ''String''"
  by code_simp


section \<open>An accepted filter that the row evaluator cannot replay\<close>

text \<open>
  Claim C1 (every sequence that \<^verbatim>\<open>checkFilter\<close> accepts leaves exactly one value on the
  stack of \<^verbatim>\<open>runFilter\<close>, for every row). The validator writes the converted literal
  back into the array, and the evaluator decides from the array which tokens are
  operators. For the filter \<^verbatim>\<open>name = "or"\<close> the literal becomes \<^verbatim>\<open>OR\<close>: the replay takes
  it for the operator, pops \<^verbatim>\<open>name\<close> and \<^verbatim>\<open>undefined\<close>, and the comparison that follows
  finds \<^verbatim>\<open>undefined\<close> where the column key should be. Reading a property of
  \<^verbatim>\<open>data[rowID][undefined]\<close> throws a TypeError; no value is left on the stack and
  \<^verbatim>\<open>runFilter\<close> does not return.
\<close>

lemma checkFilter_name_or:
  "checkFilter plainHost [nameColumn] [''name'', quoted ''or'', ''='']
     = Inr [JStr ''name'', JStr ''OR'', JStr ''='']"
  by code_simp

lemma evalRow_name_or:
  "evalRow plainHost [[(''name'', abcCell)]] 0 [JStr ''name'', JStr ''OR'', JStr ''=''] [] = Inl ''TypeError''"
  by code_simp

lemma runFilter_name_or:
  "runFilter plainHost [[(''name'', abcCell)]] [JStr ''name'', JStr ''OR'', JStr ''=''] [0]
     = (RThrows ''TypeError'', [0])"
  by (simp add: evalRow_name_or del: evalRow.simps)

lemma getTokens_name_or:
  "getTokens (''name = '' @ quoted ''or'') (wordTokensOf [nameColumn]) nonWordTokens
     = Some [''name'', ''='', quoted ''or'']"
  by code_simp

lemma tokensToRPN_name_or:
  "tokensToRPN [''name'', ''='', quoted ''or''] = Some [''name'', quoted ''or'', ''='']"
  by code_simp

theorem accepted_filter_throws_in_runFilter:
  "checkFilter plainHost [nameColumn] [''name'', quoted ''or'', ''='']
     = Inr [JStr ''name'', JStr ''OR'', JStr ''='']
   \<and> evalRow plainHost [[(''name'', abcCell)]] 0 [JStr ''name'', JStr ''OR'', JStr ''=''] []
       = Inl ''TypeError''
   \<and> runFilter plainHost [[(''name'', abcCell)]] [JStr ''name'', JStr ''OR'', JStr ''=''] [0]
       = (RThrows ''TypeError'', [0])
   \<and> filterData plainHost [nameColumn] [[(''name'', abcCell)]] [0] (''name = '' @ quoted ''or'')
       = (RThrows ''TypeError'', [0])"
proof -
  have "filterData plainHost [nameColumn] [[(''name'', abcCell)]] [0] (''name = '' @ quoted ''or'')
       = (RThrows ''TypeError'', [0])"
  proof -
    have "''name = '' @ quoted ''or'' \<noteq> []" by simp
    then show ?thesis
      unfolding filterData_def
      by (simp add: getTokens_name_or tokensToRPN_name_or checkFilter_name_or runFilter_name_or
          del: append.simps runFilter.simps)
  qed
  then show ?thesis
    by (simp add: checkFilter_name_or evalRow_name_or runFilter_name_or
        del: append.simps runFilter.simps evalRow.simps)
qed

text \<open>The same happens without any rewriting when a comparison has the result of another
  comparison as its left operand, as in \<^verbatim>\<open>name = 1 = 2\<close>: the validator lets a
  placeholder pass for a field, and the evaluator reads \<^verbatim>\<open>data[rowID][false]\<close>.\<close>

lemma checkFilter_chained_comparison:
  "checkFilter plainHost [nameColumn] [''name'', ''1'', ''='', ''2'', ''='']
     = Inr [JStr ''name'', JStr ''1'', JStr ''='', JStr ''2'', JStr ''='']"
  by code_simp

lemma evalRow_chained_comparison:
  "evalRow plainHost [[(''name'', abcCell)]] 0
     [JStr ''name'', JStr ''1'', JStr ''='', JStr ''2'', JStr ''=''] [] = Inl ''TypeError''"
  by code_simp


section \<open>Sorting the display array\<close>

lemma num_lt_irrefl: "\<not> num_lt a a"
  by (cases a) simp_all

lemma num_le_trans:
  "a \<noteq> NaN \<Longrightarrow> b \<noteq> NaN \<Longrightarrow> c \<noteq> NaN \<Longrightarrow> num_le a b \<Longrightarrow> num_le b c \<Longrightarrow> num_le a c"
  unfolding num_le_def by (cases a; cases b; cases c) simp_all

lemma num_le_total: "a \<noteq> NaN \<Longrightarrow> b \<noteq> NaN \<Longrightarrow> num_le a b \<or> num_le b a"
  unfolding num_le_def by (cases a; cases b) auto

lemma js_lt_numbers: "js_lt h (JNum a) (JNum b) = num_lt a b"
  by (simp add: js_lt_def)

text \<open>The insertion, for any callback: what it returns holds the entries it was given.\<close>

lemma insertSorted_mset:
  "insertSorted compare x ys = Inr zs \<Longrightarrow> mset zs = add_mset x (mset ys)"
proof (induction ys arbitrary: zs)
  case Nil
  then show ?case by auto
next
  case (Cons y ys)
  then show ?case
    by (auto split: sum.splits if_splits)
qed

lemma insertSorted_returns:
  "\<forall>y \<in> set ys. \<exists>r. compare x y = Inr r \<Longrightarrow> \<exists>zs. insertSorted compare x ys = Inr zs"
proof (induction ys)
  case Nil
  then show ?case by simp
next
  case (Cons y ys)
  then obtain r where r: "compare x y = Inr r" by auto
  from Cons obtain zs where "insertSorted compare x ys = Inr zs" by auto
  with r show ?case by simp
qed

text \<open>\<open>R\<close> is the order the callback decides: \<open>x\<close> goes before \<open>y\<close> when the callback
  returns no positive number.\<close>

lemma insertSorted_sorted:
  assumes "insertSorted compare x ys = Inr zs"
    and "sorted_wrt R ys"
    and "\<And>y r. y \<in> set ys \<Longrightarrow> compare x y = Inr r \<Longrightarrow> (if r \<le> 0 then R x y else R y x)"
    and "\<And>a b. a \<in> set ys \<Longrightarrow> b \<in> set ys \<Longrightarrow> R x a \<Longrightarrow> R a b \<Longrightarrow> R x b"
  shows "sorted_wrt R zs"
  using assms
proof (induction ys arbitrary: zs)
  case Nil
  then show ?case by auto
next
  case (Cons y ys)
  show ?case
  proof (cases "compare x y")
    case (Inl exn)
    with Cons.prems(1) show ?thesis by simp
  next
    case (Inr r)
    show ?thesis
    proof (cases "r \<le> 0")
      case True
      with Inr Cons.prems(1) have zs: "zs = x # y # ys" by simp
      from Cons.prems(3) [of y r] Inr True have xy: "R x y" by simp
      have "\<forall>b \<in> set ys. R x b"
      proof
        fix b assume b: "b \<in> set ys"
        with Cons.prems(2) have "R y b" by simp
        with Cons.prems(4) [of y b] b xy show "R x b" by simp
      qed
      with xy Cons.prems(2) zs show ?thesis by simp
    next
      case False
      with Inr Cons.prems(1) obtain ws where ws: "insertSorted compare x ys = Inr ws" "zs = y # ws"
        by (auto split: sum.splits)
      from Cons.prems(3) [of y r] Inr False have yx: "R y x" by simp
      have "sorted_wrt R ws"
        using Cons.IH [OF ws(1)] Cons.prems(2,3,4) by auto
      moreover have "set ws = insert x (set ys)"
        using insertSorted_mset [OF ws(1)] by (metis set_mset_add_mset_insert set_mset_mset)
      ultimately show ?thesis
        using ws(2) yx Cons.prems(2) by auto
    qed
  qed
qed

lemma insertSorted_filter_neg:
  "insertSorted compare x ys = Inr zs \<Longrightarrow> \<not> P x \<Longrightarrow> filter P zs = filter P ys"
proof (induction ys arbitrary: zs)
  case Nil
  then show ?case by auto
next
  case (Cons y ys)
  then show ?case by (auto split: sum.splits if_splits)
qed

lemma insertSorted_filter_pos:
  assumes "insertSorted compare x ys = Inr zs" and "P x"
    and "\<And>y r. y \<in> set ys \<Longrightarrow> compare x y = Inr r \<Longrightarrow> 0 < r \<Longrightarrow> \<not> P y"
  shows "filter P zs = x # filter P ys"
  using assms
proof (induction ys arbitrary: zs)
  case Nil
  then show ?case by auto
next
  case (Cons y ys)
  show ?case
  proof (cases "compare x y")
    case (Inl exn)
    with Cons.prems(1) show ?thesis by simp
  next
    case (Inr r)
    show ?thesis
    proof (cases "r \<le> 0")
      case True
      with Inr Cons.prems(1,2) show ?thesis by auto
    next
      case False
      with Inr Cons.prems(1) obtain ws where ws: "insertSorted compare x ys = Inr ws" "zs = y # ws"
        by (auto split: sum.splits)
      from Cons.prems(3) [of y r] Inr False have "\<not> P y" by simp
      moreover have "filter P ws = x # filter P ys"
        using Cons.IH [OF ws(1) Cons.prems(2)] Cons.prems(3) by auto
      ultimately show ?thesis using ws(2) by simp
    qed
  qed
qed


lemma sortWith_mset: "sortWith compare xs = Inr zs \<Longrightarrow> mset zs = mset xs"
proof (induction xs arbitrary: zs)
  case Nil
  then show ?case by simp
next
  case (Cons x xs)
  then obtain ys where ys: "sortWith compare xs = Inr ys" "insertSorted compare x ys = Inr zs"
    by (auto split: sum.splits)
  with Cons.IH [OF ys(1)] insertSorted_mset [OF ys(2)] show ?case by simp
qed

lemma sortWith_set: "sortWith compare xs = Inr zs \<Longrightarrow> set zs = set xs"
  using sortWith_mset by (metis set_mset_mset)

lemma sortWith_returns:
  "\<forall>a \<in> set xs. \<forall>b \<in> set xs. \<exists>r. compare a b = Inr r \<Longrightarrow> \<exists>zs. sortWith compare xs = Inr zs"
proof (induction xs)
  case Nil
  then show ?case by simp
next
  case (Cons x xs)
  then obtain ys where ys: "sortWith compare xs = Inr ys" by auto
  from Cons.prems sortWith_set [OF ys] have "\<forall>y \<in> set ys. \<exists>r. compare x y = Inr r" by simp
  then obtain zs where "insertSorted compare x ys = Inr zs"
    using insertSorted_returns [of ys compare x] by blast
  with ys show ?case by simp
qed

lemma sortWith_sorted:
  assumes "sortWith compare xs = Inr zs"
    and "\<And>a b r. a \<in> set xs \<Longrightarrow> b \<in> set xs \<Longrightarrow> compare a b = Inr r
           \<Longrightarrow> (if r \<le> 0 then R a b else R b a)"
    and "\<And>a b c. a \<in> set xs \<Longrightarrow> b \<in> set xs \<Longrightarrow> c \<in> set xs \<Longrightarrow> R a b \<Longrightarrow> R b c \<Longrightarrow> R a c"
  shows "sorted_wrt R zs"
  using assms
proof (induction xs arbitrary: zs)
  case Nil
  then show ?case by simp
next
  case (Cons x xs)
  then obtain ys where ys: "sortWith compare xs = Inr ys" "insertSorted compare x ys = Inr zs"
    by (auto split: sum.splits)
  have s: "set ys = set xs" by (rule sortWith_set [OF ys(1)])
  have "sorted_wrt R ys"
  proof (rule Cons.IH [OF ys(1)])
    fix a b r assume "a \<in> set xs" "b \<in> set xs" "compare a b = Inr r"
    then show "if r \<le> 0 then R a b else R b a"
      using Cons.prems(2) [of a b r] by simp
  next
    fix a b c assume "a \<in> set xs" "b \<in> set xs" "c \<in> set xs" "R a b" "R b c"
    then show "R a c" using Cons.prems(3) [of a b c] by simp
  qed
  then show ?case
  proof (rule insertSorted_sorted [OF ys(2)])
    fix y r assume "y \<in> set ys" "compare x y = Inr r"
    then show "if r \<le> 0 then R x y else R y x"
      using Cons.prems(2) [of x y r] s by simp
  next
    fix a b assume "a \<in> set ys" "b \<in> set ys" "R x a" "R a b"
    then show "R x b" using Cons.prems(3) [of x a b] s by simp
  qed
qed

lemma sortWith_stable:
  assumes "sortWith compare xs = Inr zs"
    and "\<And>a b r. a \<in> set xs \<Longrightarrow> b \<in> set xs \<Longrightarrow> compare a b = Inr r \<Longrightarrow> 0 < r \<Longrightarrow> k a \<noteq> k b"
  shows "filter (\<lambda>e. k e = n) zs = filter (\<lambda>e. k e = n) xs"
  using assms
proof (induction xs arbitrary: zs)
  case Nil
  then show ?case by simp
next
  case (Cons x xs)
  then obtain ys where ys: "sortWith compare xs = Inr ys" "insertSorted compare x ys = Inr zs"
    by (auto split: sum.splits)
  have s: "set ys = set xs" by (rule sortWith_set [OF ys(1)])
  have IH: "filter (\<lambda>e. k e = n) ys = filter (\<lambda>e. k e = n) xs"
  proof (rule Cons.IH [OF ys(1)])
    fix a b r assume "a \<in> set xs" "b \<in> set xs" "compare a b = Inr r" "0 < r"
    then show "k a \<noteq> k b" using Cons.prems(2) [of a b r] by simp
  qed
  show ?case
  proof (cases "k x = n")
    case False
    with insertSorted_filter_neg [OF ys(2), of "\<lambda>e. k e = n"] IH show ?thesis by simp
  next
    case True
    have "filter (\<lambda>e. k e = n) zs = x # filter (\<lambda>e. k e = n) ys"
    proof (rule insertSorted_filter_pos [OF ys(2)])
      show "k x = n" by (rule True)
    next
      fix y r assume "y \<in> set ys" "compare x y = Inr r" "0 < r"
      with Cons.prems(2) [of x y r] s True show "k y \<noteq> n" by auto
    qed
    with IH True show ?thesis by simp
  qed
qed

text \<open>The callback of \<^verbatim>\<open>sortData\<close> on two entries that point to ranged cells.\<close>

lemma rowKey_Some:
  "rowKey data colKey bound e = Some n \<Longrightarrow>
   \<exists>c. cellAt data (e AND 1048575) colKey = Some c \<and> bound c = Some (JNum n) \<and> n \<noteq> NaN"
  by (auto simp: rowKey_def split: option.splits jsval.splits if_splits)

lemma sortCompare_ranged:
  assumes "rowKey data colKey cmpMin a = Some a1" and "rowKey data colKey cmpMax a = Some a2"
    and "rowKey data colKey cmpMin b = Some b1" and "rowKey data colKey cmpMax b = Some b2"
  shows "sortCompare h data colKey order a b =
     Inr (if truthy order
          then (if num_lt b1 a1 then 1 else if num_lt a1 b1 then - 1 else 0)
          else (if num_lt a2 b2 then 1 else if num_lt b2 a2 then - 1 else 0))"
proof -
  from rowKey_Some [OF assms(1)] rowKey_Some [OF assms(2)]
  obtain ca where ca: "cellAt data (a AND 1048575) colKey = Some ca"
      "cmpMin ca = Some (JNum a1)" "cmpMax ca = Some (JNum a2)"
    by auto
  from rowKey_Some [OF assms(3)] rowKey_Some [OF assms(4)]
  obtain cb where cb: "cellAt data (b AND 1048575) colKey = Some cb"
      "cmpMin cb = Some (JNum b1)" "cmpMax cb = Some (JNum b2)"
    by auto
  show ?thesis
    by (simp add: sortCompare_def ca cb hasProp_def getProp_def js_lt_numbers)
qed

lemma ranged_keys:
  assumes "ranged data colKey display" and "e \<in> set display"
  shows "\<exists>lo hi. rowKey data colKey cmpMin e = Some lo \<and> rowKey data colKey cmpMax e = Some hi
           \<and> lo \<noteq> NaN \<and> hi \<noteq> NaN
           \<and> keyOf data colKey cmpMin e = lo \<and> keyOf data colKey cmpMax e = hi"
proof -
  from assms obtain lo hi where k: "rowKey data colKey cmpMin e = Some lo"
      "rowKey data colKey cmpMax e = Some hi"
    by (auto simp: ranged_def list_all_iff)
  with rowKey_Some [OF k(1)] rowKey_Some [OF k(2)] show ?thesis
    by (auto simp: keyOf_def)
qed

lemma num_lt_asym: "num_lt a b \<Longrightarrow> \<not> num_lt b a"
  by (cases a; cases b) auto

lemma sortCompare_keys:
  assumes "ranged data colKey display" and "a \<in> set display" and "b \<in> set display"
  shows "sortCompare h data colKey order a b =
     Inr (if truthy order
          then (if num_lt (keyOf data colKey cmpMin b) (keyOf data colKey cmpMin a) then 1
                else if num_lt (keyOf data colKey cmpMin a) (keyOf data colKey cmpMin b) then - 1
                else 0)
          else (if num_lt (keyOf data colKey cmpMax a) (keyOf data colKey cmpMax b) then 1
                else if num_lt (keyOf data colKey cmpMax b) (keyOf data colKey cmpMax a) then - 1
                else 0))"
proof -
  from ranged_keys [OF assms(1,2)] obtain a1 a2 where
    a: "rowKey data colKey cmpMin a = Some a1" "rowKey data colKey cmpMax a = Some a2"
       "keyOf data colKey cmpMin a = a1" "keyOf data colKey cmpMax a = a2"
    by blast
  from ranged_keys [OF assms(1,3)] obtain b1 b2 where
    b: "rowKey data colKey cmpMin b = Some b1" "rowKey data colKey cmpMax b = Some b2"
       "keyOf data colKey cmpMin b = b1" "keyOf data colKey cmpMax b = b2"
    by blast
  show ?thesis
    unfolding a(3,4) b(3,4) by (rule sortCompare_ranged [OF a(1,2) b(1,2)])
qed

text \<open>
  Claim C8. When every entry of the display array points to a cell of the column that
  has both bounds, \<^verbatim>\<open>sortData\<close> returns, the array it leaves holds the same entries (each
  with the hidden bit it had), it is ordered by non-decreasing \<^verbatim>\<open>cmpMin\<close> when the order
  is ascending and by non-increasing \<^verbatim>\<open>cmpMax\<close> when it is descending, and entries with
  equal keys stay in the order they had.
\<close>

theorem sortData_ranged:
  assumes "ranged data colKey display"
  shows "\<exists>sorted'. sortData h data display colKey order = Inr sorted'
     \<and> mset sorted' = mset display
     \<and> (if truthy order
        then sorted_wrt (\<lambda>a b. num_le (keyOf data colKey cmpMin a) (keyOf data colKey cmpMin b)) sorted'
             \<and> stableBy (keyOf data colKey cmpMin) display sorted'
        else sorted_wrt (\<lambda>a b. num_le (keyOf data colKey cmpMax b) (keyOf data colKey cmpMax a)) sorted'
             \<and> stableBy (keyOf data colKey cmpMax) display sorted')"
proof -
  let ?compare = "sortCompare h data colKey order"
  let ?lo = "keyOf data colKey cmpMin"
  let ?hi = "keyOf data colKey cmpMax"
  note cmp = sortCompare_keys [OF assms]
  have nan: "?lo e \<noteq> NaN \<and> ?hi e \<noteq> NaN" if "e \<in> set display" for e
    using ranged_keys [OF assms that] by auto
  have "\<forall>a \<in> set display. \<forall>b \<in> set display. \<exists>r. ?compare a b = Inr r"
    using cmp by blast
  then obtain zs where zs: "sortWith ?compare display = Inr zs"
    using sortWith_returns [of display ?compare] by blast
  have perm: "mset zs = mset display" by (rule sortWith_mset [OF zs])
  show ?thesis
  proof (cases "truthy order")
    case True
    have "sorted_wrt (\<lambda>a b. num_le (?lo a) (?lo b)) zs"
    proof (rule sortWith_sorted [OF zs])
      fix a b r assume "a \<in> set display" "b \<in> set display" "?compare a b = Inr r"
      with cmp [of a b h order] True
      show "if r \<le> 0 then num_le (?lo a) (?lo b) else num_le (?lo b) (?lo a)"
        by (auto simp: num_le_def dest: num_lt_asym split: if_splits)
    next
      fix a b c assume "a \<in> set display" "b \<in> set display" "c \<in> set display"
        and "num_le (?lo a) (?lo b)" "num_le (?lo b) (?lo c)"
      then show "num_le (?lo a) (?lo c)"
        using nan [of a] nan [of b] nan [of c] num_le_trans by blast
    qed
    moreover have "filter (\<lambda>e. ?lo e = n) zs = filter (\<lambda>e. ?lo e = n) display" for n
    proof (rule sortWith_stable [OF zs])
      fix a b r assume "a \<in> set display" "b \<in> set display" "?compare a b = Inr r" "0 < r"
      with cmp [of a b h order] True show "?lo a \<noteq> ?lo b"
        by (auto simp: num_lt_irrefl split: if_splits)
    qed
    ultimately show ?thesis
      using True zs perm by (simp add: sortData_def stableBy_def)
  next
    case False
    have "sorted_wrt (\<lambda>a b. num_le (?hi b) (?hi a)) zs"
    proof (rule sortWith_sorted [OF zs])
      fix a b r assume "a \<in> set display" "b \<in> set display" "?compare a b = Inr r"
      with cmp [of a b h order] False
      show "if r \<le> 0 then num_le (?hi b) (?hi a) else num_le (?hi a) (?hi b)"
        by (auto simp: num_le_def dest: num_lt_asym split: if_splits)
    next
      fix a b c assume "a \<in> set display" "b \<in> set display" "c \<in> set display"
        and "num_le (?hi b) (?hi a)" "num_le (?hi c) (?hi b)"
      then show "num_le (?hi c) (?hi a)"
        using nan [of a] nan [of b] nan [of c] num_le_trans by blast
    qed
    moreover have "filter (\<lambda>e. ?hi e = n) zs = filter (\<lambda>e. ?hi e = n) display" for n
    proof (rule sortWith_stable [OF zs])
      fix a b r assume "a \<in> set display" "b \<in> set display" "?compare a b = Inr r" "0 < r"
      with cmp [of a b h order] False show "?hi a \<noteq> ?hi b"
        by (auto simp: num_lt_irrefl split: if_splits)
    qed
    ultimately show ?thesis
      using False zs perm by (simp add: sortData_def stableBy_def)
  qed
qed

lemma rowKey_portData:
  "rowKey portData ''port'' cmpMin 0 = Some (Fin 80)" "rowKey portData ''port'' cmpMax 0 = Some (Fin 443)"
  "rowKey portData ''port'' cmpMin 1048577 = Some (Fin 22)" "rowKey portData ''port'' cmpMax 1048577 = Some (Fin 22)"
  "rowKey portData ''port'' cmpMin 2 = Some (Fin 80)" "rowKey portData ''port'' cmpMax 2 = Some (Fin 90)"
  by (simp_all add: rowKey_def cellAt_def rowGet_def portData_def portCell_def)

lemma ranged_portData: "ranged portData ''port'' [0, 1048577, 2]"
  by (simp add: ranged_def rowKey_portData)

lemma sortCompare_portData:
  "sortCompare h portData ''port'' (JNum (Fin 1)) 1048577 2 = Inr (- 1)"
  "sortCompare h portData ''port'' (JNum (Fin 1)) 0 1048577 = Inr 1"
  "sortCompare h portData ''port'' (JNum (Fin 1)) 0 2 = Inr 0"
  "sortCompare h portData ''port'' (JNum (Fin 0)) 1048577 2 = Inr 1"
  "sortCompare h portData ''port'' (JNum (Fin 0)) 0 2 = Inr (- 1)"
  by (simp_all add: sortCompare_ranged rowKey_portData num_truthy_def)

lemma sortData_portData:
  "sortData h portData [0, 1048577, 2] ''port'' (JNum (Fin 1)) = Inr [1048577, 0, 2]"
  "sortData h portData [0, 1048577, 2] ''port'' (JNum (Fin 0)) = Inr [0, 2, 1048577]"
  by (simp_all add: sortData_def sortCompare_portData)

theorem sortData_ranged_witness:
  "ranged portData ''port'' [0, 1048577, 2]
   \<and> sortData plainHost portData [0, 1048577, 2] ''port'' (JNum (Fin 1)) = Inr [1048577, 0, 2]
   \<and> sorted_wrt (\<lambda>a b. num_le (keyOf portData ''port'' cmpMin a) (keyOf portData ''port'' cmpMin b))
        [1048577, 0, 2]
   \<and> stableBy (keyOf portData ''port'' cmpMin) [0, 1048577, 2] [1048577, 0, 2]
   \<and> sortData plainHost portData [0, 1048577, 2] ''port'' (JNum (Fin 0)) = Inr [0, 2, 1048577]
   \<and> sorted_wrt (\<lambda>a b. num_le (keyOf portData ''port'' cmpMax b) (keyOf portData ''port'' cmpMax a))
        [0, 2, 1048577]
   \<and> stableBy (keyOf portData ''port'' cmpMax) [0, 1048577, 2] [0, 2, 1048577]"
  using sortData_ranged [OF ranged_portData, of plainHost "JNum (Fin 1)"]
    sortData_ranged [OF ranged_portData, of plainHost "JNum (Fin 0)"]
  by (simp add: ranged_portData sortData_portData num_truthy_def)

section \<open>Normalising a cell a second time\<close>

lemma needStr_Str [simp]: "needStr (Some (JStr s)) = False"
  by (simp add: needStr_def hasProp_def getProp_def)

lemma needStr_Undefined [simp]: "needStr (Some JUndefined) = True"
  by (simp add: needStr_def hasProp_def getProp_def)

lemma needStr_Num [simp]: "needStr (Some (JNum n)) = True"
  by (simp add: needStr_def hasProp_def getProp_def)

lemma needNum_Num [simp]: "needNum h (Some (JNum n)) = (n = NaN)"
  by (auto simp: needNum_def hasProp_def getProp_def isNaN_def toNum_def)

lemma not_needStr: "\<not> needStr p \<Longrightarrow> \<exists>s. p = Some (JStr s)"
  by (cases p; cases "getProp p") (auto simp: needStr_def hasProp_def getProp_def)

lemma not_needNum: "\<not> needNum h p \<Longrightarrow> \<exists>n. p = Some (JNum n) \<and> n \<noteq> NaN"
  by (cases p; cases "getProp p")
    (auto simp: needNum_def hasProp_def getProp_def isNaN_def toNum_def)

lemma keepStr_is_Str: "\<exists>t. keepStr p s = Some (JStr t)"
  using not_needStr [of p] by (auto simp: keepStr_def)

lemma needStr_keepStr [simp]: "needStr (keepStr p s) = False"
  using keepStr_is_Str [of p s] by auto

lemma keepStr_again [simp]: "keepStr (keepStr p s) t = keepStr p s"
  by (simp add: keepStr_def [of "keepStr p s"])

lemma keepStr_defined [simp]: "getProp (keepStr p s) \<noteq> JUndefined"
  using keepStr_is_Str [of p s] by (auto simp: getProp_def)

lemma keepStr_Str [simp]: "keepStr (Some (JStr s)) t = Some (JStr s)"
  by (simp add: keepStr_def)

lemma keepNum_again [simp]: "keepNum h (keepNum h p n) n = keepNum h p n"
  by (auto simp: keepNum_def)

lemma keepNum_is_Num: "\<exists>m. keepNum h p n = Some (JNum m)"
  using not_needNum [of h p] by (auto simp: keepNum_def)

lemma typeOf_keepNum [simp]: "typeOf (getProp (keepNum h p n)) = ''Number''"
  using keepNum_is_Num [of h p n] by (auto simp: getProp_def)

lemma getProp_Some [simp]: "getProp (Some v) = v"
  by (simp add: getProp_def)


lemma cleanse_fields [simp]:
  "val (cleanse col c) = val c" "html (cleanse col c) = html c" "match (cleanse col c) = match c"
  "cssClass (cleanse col c) = cssClass c" "htmlAlt (cleanse col c) = htmlAlt c"
  "ctype (cleanse col c) = ctype c"
  "cmp (cleanse col c) = (if type col = Some ''intrange'' \<or> type col = Some ''ip'' then None else cmp c)"
  "cmpMin (cleanse col c) = (if type col = Some ''intrange'' \<or> type col = Some ''ip'' then cmpMin c else None)"
  "cmpMax (cleanse col c) = (if type col = Some ''intrange'' \<or> type col = Some ''ip'' then cmpMax c else None)"
  "cmask (cleanse col c) = (if type col = Some ''ip'' then cmask c else None)"
  by (auto simp: cleanse_def Let_def hasProp_def)

lemma pushBadValue_fields [simp]:
  "val (pushBadValue c) = val c" "html (pushBadValue c) = html c" "match (pushBadValue c) = match c"
  "htmlAlt (pushBadValue c) = htmlAlt c" "ctype (pushBadValue c) = ctype c"
  "cmp (pushBadValue c) = cmp c" "cmpMin (pushBadValue c) = cmpMin c"
  "cmpMax (pushBadValue c) = cmpMax c" "cmask (pushBadValue c) = cmask c"
  by (auto simp: pushBadValue_def split: jsval.splits)

lemma pushBadValue_cssClass [simp]:
  "cssClass c = Some (JArr vs) \<Longrightarrow> cssClass (pushBadValue c) = Some (JArr (vs @ [JStr ''bad-value'']))"
  by (simp add: pushBadValue_def)


lemma badValue_fields [simp]:
  "val (badValue h opts col c) = val c" "htmlAlt (badValue h opts col c) = htmlAlt c"
  "ctype (badValue h opts col c) = ctype c" "cmp (badValue h opts col c) = cmp c"
  "cmpMin (badValue h opts col c) = cmpMin c" "cmpMax (badValue h opts col c) = cmpMax c"
  "cmask (badValue h opts col c) = cmask c"
  by (simp_all add: badValue_def)



lemma setUndefined_fields [simp]:
  "val (setUndefined c) = val c" "html (setUndefined c) = Some JUndefined"
  "match (setUndefined c) = Some JUndefined" "cssClass (setUndefined c) = cssClass c"
  "htmlAlt (setUndefined c) = htmlAlt c" "ctype (setUndefined c) = ctype c"
  "cmp (setUndefined c) = cmp c" "cmpMin (setUndefined c) = cmpMin c"
  "cmpMax (setUndefined c) = cmpMax c" "cmask (setUndefined c) = cmask c"
  by (simp_all add: setUndefined_def)

lemma matchFromHtml_fields [simp]:
  "val (matchFromHtml h c) = val c" "html (matchFromHtml h c) = html c"
  "match (matchFromHtml h c) = keepStr (match c) (toUpperCase (html2text h (toStr h (getProp (html c)))))"
  "cssClass (matchFromHtml h c) = cssClass c"
  "htmlAlt (matchFromHtml h c) = htmlAlt c" "ctype (matchFromHtml h c) = ctype c"
  "cmp (matchFromHtml h c) = cmp c" "cmpMin (matchFromHtml h c) = cmpMin c"
  "cmpMax (matchFromHtml h c) = cmpMax c" "cmask (matchFromHtml h c) = cmask c"
  by (simp_all add: matchFromHtml_def)

lemma rangeBounds_fields [simp]:
  "val (rangeBounds h lo hi c) = val c" "html (rangeBounds h lo hi c) = html c"
  "match (rangeBounds h lo hi c) = match c" "cssClass (rangeBounds h lo hi c) = cssClass c"
  "htmlAlt (rangeBounds h lo hi c) = htmlAlt c" "ctype (rangeBounds h lo hi c) = ctype c"
  "cmp (rangeBounds h lo hi c) = cmp c" "cmpMin (rangeBounds h lo hi c) = keepNum h (cmpMin c) lo"
  "cmpMax (rangeBounds h lo hi c) = keepNum h (cmpMax c) hi" "cmask (rangeBounds h lo hi c) = cmask c"
  by (simp_all add: rangeBounds_def)






lemma normInt_keeps [simp]:
  "val (normInt h c) = val c" "htmlAlt (normInt h c) = htmlAlt c" "ctype (normInt h c) = ctype c"
  by (simp_all add: normInt_def split: jsval.splits)



lemma badRange_fields [simp]:
  "val (badRange c) = val c" "html (badRange c) = Some JUndefined"
  "match (badRange c) = Some JUndefined" "cssClass (badRange c) = cssClass c"
  "htmlAlt (badRange c) = htmlAlt c" "ctype (badRange c) = ctype c"
  "cmp (badRange c) = cmp c" "cmpMin (badRange c) = Some (JNum NegInf)"
  "cmpMax (badRange c) = Some (JNum NegInf)" "cmask (badRange c) = cmask c"
  by (simp_all add: badRange_def)





lemma normIntrange_keeps [simp]:
  "val (normIntrange h c) = val c" "htmlAlt (normIntrange h c) = htmlAlt c"
  "ctype (normIntrange h c) = ctype c"
  by (simp_all add: normIntrange_def Let_def split: jsval.splits option.splits)




lemma setMask_fields [simp]:
  "val (setMask h m c) = val c" "html (setMask h m c) = html c" "match (setMask h m c) = match c"
  "cssClass (setMask h m c) = cssClass c" "htmlAlt (setMask h m c) = htmlAlt c"
  "ctype (setMask h m c) = ctype c" "cmp (setMask h m c) = cmp c"
  "cmpMin (setMask h m c) = cmpMin c" "cmpMax (setMask h m c) = cmpMax c"
  "cmask (setMask h m c) =
     (if \<not> hasProp (cmask c) \<or> typeOf (getProp (cmpMax c)) \<noteq> ''Number'' \<or> isNaN h (getProp (cmask c))
      then Some (JNum m) else cmask c)"
  by (simp_all add: setMask_def)

lemma normIp_keeps [simp]:
  "val (normIp h c) = val c" "htmlAlt (normIp h c) = htmlAlt c" "ctype (normIp h c) = ctype c"
  by (simp_all add: normIp_def Let_def split: jsval.splits)









lemma normVersion_keeps [simp]:
  "val (normVersion h c) = val c" "htmlAlt (normVersion h c) = htmlAlt c"
  "ctype (normVersion h c) = ctype c"
  by (simp_all add: normVersion_def goodVersion_def badText_def split: jsval.splits)



lemma normStr_keeps [simp]:
  "val (normStr h c) = val c" "htmlAlt (normStr h c) = htmlAlt c" "ctype (normStr h c) = ctype c"
  by (simp_all add: normStr_def scalarText_def badText_def split: jsval.splits)





lemma value2array_kept [simp]: "value2array (Some (JArr vs)) = JArr vs"
  by (simp add: value2array_def)

lemma again_array:
  assumes "again c c'" and "\<exists>vs. cssClass c = Some (JArr vs)"
  shows "\<exists>vs. cssClass c' = Some (JArr vs)"
  using assms by (auto simp: again_def)

lemma pushBadValue_array:
  assumes "\<exists>vs. cssClass c = Some (JArr vs)"
  shows "\<exists>vs. cssClass (pushBadValue c) = Some (JArr vs)"
  using assms by auto












lemma again_tags:
  assumes "again c c'"
  shows "tags c' = tags c"
  using assms by (auto simp: again_def tags_def)




text \<open>
  An entry that gives no raw value, a cell object with neither \<^verbatim>\<open>value\<close> nor a string
  \<^verbatim>\<open>html\<close>, is outside the amended claim: the first application writes the fallback text
  into \<^verbatim>\<open>html\<close>, and the second takes the raw value from that text. With the fallback text
  \<^verbatim>\<open>0\<close> in a column of type \<^verbatim>\<open>int\<close>, \<^verbatim>\<open>cmp\<close> goes from \<open>-Infinity\<close> to 0 and \<^verbatim>\<open>match\<close> from the
  string \<^verbatim>\<open>0\<close> to the number 0.
\<close>

lemma normalizeValue_twice_without_value:
  "\<not> givesValue (CellObj emptyCell)"
  "normalizeValue plainHost zeroOptions idColumn (CellObj emptyCell)
     = Inr \<lparr> val = None, html = Some (JStr ''0''), match = Some (JStr ''0''),
         cmp = Some (JNum NegInf), cmpMin = None, cmpMax = None, cmask = None,
         cssClass = Some (JArr [JStr ''bad-value'']), htmlAlt = None,
         ctype = Some (JStr ''Undefined'') \<rparr>"
  "normalizeValue plainHost zeroOptions idColumn
     (CellObj \<lparr> val = None, html = Some (JStr ''0''), match = Some (JStr ''0''),
         cmp = Some (JNum NegInf), cmpMin = None, cmpMax = None, cmask = None,
         cssClass = Some (JArr [JStr ''bad-value'']), htmlAlt = None,
         ctype = Some (JStr ''Undefined'') \<rparr>)
     = Inr \<lparr> val = Some (JStr ''0''), html = Some (JStr ''0''), match = Some (JNum (Fin 0)),
         cmp = Some (JNum (Fin 0)), cmpMin = None, cmpMax = None, cmask = None,
         cssClass = Some (JArr [JStr ''bad-value'']), htmlAlt = None,
         ctype = Some (JStr ''String'') \<rparr>"
  by code_simp+

end
